theory Spec2Isabelle
  imports Complex_Main
begin

section \<open>District heating API: data model\<close>

text \<open>
  The embedding follows \<^verbatim>\<open>backend/models.py\<close> (the tables) and
  \<^verbatim>\<open>backend/app.py\<close> (the request handlers).

  \<^item> A table is the list of its rows in insertion order; a handler is a function from
    its arguments and the database to a result and the database after the request.
    A handler that raises returns \<open>Inl\<close> of the exception and the database it was
    given: every \<^verbatim>\<open>raise\<close> of the source stands before the first write, and a commit
    that fails writes nothing. Requests are taken one at a time, each in its own session.
  \<^item> \<^verbatim>\<open>Float\<close> columns are exact rationals; \<^verbatim>\<open>DateTime\<close> values are
    integers (a clock reading). The store's clock (\<^verbatim>\<open>func.now()\<close>) is the argument
    \<open>now\<close> of every handler that writes.
  \<^item> A nullable column or an \<^verbatim>\<open>Optional\<close> field is an \<open>option\<close>; \<open>None\<close> is
    \<^verbatim>\<open>None\<close>/\<^verbatim>\<open>NULL\<close>.
  \<^item> The three tables have columns of the same name, so the fields carry a prefix:
    \<open>hc_\<close> (HeatCenter), \<open>ds_\<close> (DemandSite), \<open>rt_\<close> (Route), \<open>sc_\<close> (SystemConfig).
\<close>

type_synonym datetime = int

datatype RouteStatus = ACTIVE | INACTIVE | MAINTENANCE | PLANNED

record HeatCenter =
  hc_id :: int
  hc_name :: string
  hc_location_lat :: rat
  hc_location_lng :: rat
  hc_address :: "string option"
  hc_max_capacity_mw :: rat
  hc_current_output_mw :: "rat option"
  hc_efficiency_percent :: "rat option"
  hc_fuel_type :: "string option"
  hc_is_active :: "bool option"
  hc_commissioning_date :: "datetime option"
  hc_last_maintenance :: "datetime option"
  hc_description :: "string option"
  hc_created_at :: datetime
  hc_updated_at :: "datetime option"

record DemandSite =
  ds_id :: int
  ds_name :: string
  ds_location_lat :: rat
  ds_location_lng :: rat
  ds_address :: "string option"
  ds_site_type :: "string option"
  ds_peak_demand_mw :: rat
  ds_current_demand_mw :: "rat option"
  ds_annual_consumption_mwh :: "rat option"
  ds_is_connected :: "bool option"
  ds_connection_date :: "datetime option"
  ds_priority_level :: "int option"
  ds_floor_area_sqm :: "rat option"
  ds_building_age_years :: "int option"
  ds_insulation_rating :: "string option"
  ds_description :: "string option"
  ds_created_at :: datetime
  ds_updated_at :: "datetime option"

record Route =
  rt_id :: int
  rt_heat_center_id :: int
  rt_demand_site_id :: int
  rt_distance_km :: rat
  rt_pipe_diameter_mm :: "int option"
  rt_max_flow_capacity_mw :: rat
  rt_current_flow_mw :: "rat option"
  rt_supply_temp_celsius :: "rat option"
  rt_return_temp_celsius :: "rat option"
  rt_pressure_bar :: "rat option"
  rt_heat_loss_percent :: "rat option"
  rt_installation_year :: "int option"
  rt_pipe_material :: "string option"
  rt_insulation_type :: "string option"
  rt_status :: "RouteStatus option"
  rt_is_bidirectional :: "bool option"
  rt_maintenance_due :: "datetime option"
  rt_construction_cost :: "rat option"
  rt_annual_maintenance_cost :: "rat option"
  rt_created_at :: datetime
  rt_updated_at :: "datetime option"

record SystemConfig =
  sc_id :: int
  sc_config_key :: string
  sc_config_value :: string
  sc_config_type :: "string option"
  sc_description :: "string option"
  sc_is_active :: "bool option"
  sc_created_at :: datetime
  sc_updated_at :: "datetime option"

record database =
  heat_centers :: "HeatCenter list"
  demand_sites :: "DemandSite list"
  routes :: "Route list"
  system_config :: "SystemConfig list"

definition empty_db :: database where
  "empty_db = \<lparr>heat_centers = [], demand_sites = [], routes = [], system_config = []\<rparr>"

subsection \<open>Exceptions\<close>

text \<open>
  \<open>HTTPException status_code detail\<close> is the exception the handlers raise themselves:
  404 is the specification's NotFound, 400 its Conflict. \<open>RequestValidationError\<close> is
  the framework's refusal of a query parameter outside the bounds its \<^verbatim>\<open>Query(...)\<close>
  declares. \<open>IntegrityError\<close> is the store's refusal of \<^verbatim>\<open>NULL\<close> in a
  \<^verbatim>\<open>nullable=False\<close> column. The others are Python's own.
\<close>

datatype error =
    HTTPException nat string
  | RequestValidationError
  | IntegrityError
  | ZeroDivisionError
  | TypeError
  | AttributeError
  | ValueError

definition ebind :: "error + 'a \<Rightarrow> ('a \<Rightarrow> error + 'b) \<Rightarrow> error + 'b" where
  "ebind m f = (case m of Inl e \<Rightarrow> Inl e | Inr x \<Rightarrow> f x)"

subsection \<open>The store\<close>

text \<open>
  \<^verbatim>\<open>query.filter(p).first()\<close> is \<open>find p\<close>, \<^verbatim>\<open>.count()\<close> the length of the
  filtered table, \<^verbatim>\<open>.offset(skip).limit(limit).all()\<close> a \<open>drop\<close> and a \<open>take\<close>.
  An inserted row gets the integer primary key one above the largest in its table
  (1 in an empty table). On insertion the session leaves an attribute that is
  \<^verbatim>\<open>None\<close> out of the \<^verbatim>\<open>INSERT\<close>, so the column's \<^verbatim>\<open>default\<close> is stored
  where it has one; an \<^verbatim>\<open>UPDATE\<close> stores \<^verbatim>\<open>NULL\<close> as given.
\<close>

definition fresh_id :: "int list \<Rightarrow> int" where
  "fresh_id ids = fold max ids 0 + 1"

definition column_default :: "'a \<Rightarrow> 'a option \<Rightarrow> 'a option" where
  "column_default d v = (case v of None \<Rightarrow> Some d | Some x \<Rightarrow> Some x)"

definition page :: "int \<Rightarrow> int \<Rightarrow> 'a list \<Rightarrow> 'a list" where
  "page skip limit rows = take (nat limit) (drop (nat skip) rows)"

text \<open>
  The bounds of \<^verbatim>\<open>skip: int = Query(0, ge=0)\<close> and
  \<^verbatim>\<open>limit: int = Query(100, ge=1, le=1000)\<close>, which the three list handlers share.
\<close>

definition query_bounds_ok :: "int \<Rightarrow> int \<Rightarrow> bool" where
  "query_bounds_ok skip limit \<longleftrightarrow> 0 \<le> skip \<and> 1 \<le> limit \<and> limit \<le> 1000"

text \<open>Python's truth value of an optional integer and of an optional string.\<close>

definition truthy_int :: "int option \<Rightarrow> bool" where
  "truthy_int v = (case v of None \<Rightarrow> False | Some n \<Rightarrow> n \<noteq> 0)"

definition truthy_str :: "string option \<Rightarrow> bool" where
  "truthy_str v = (case v of None \<Rightarrow> False | Some s \<Rightarrow> s \<noteq> [])"

text \<open>
  A field of an update request: \<open>Unset\<close> when the request does not mention it
  (\<^verbatim>\<open>dict(exclude_unset=True)\<close> leaves it out), \<open>Supplied v\<close> when it does; every
  field of an update model is \<^verbatim>\<open>Optional\<close>, so \<open>v\<close> may be \<open>None\<close>.
\<close>

datatype 'a field = Unset | Supplied 'a

definition setattr_nullable :: "'a option field \<Rightarrow> 'a option \<Rightarrow> 'a option" where
  "setattr_nullable f old = (case f of Unset \<Rightarrow> old | Supplied v \<Rightarrow> v)"

definition setattr_required :: "'a option field \<Rightarrow> 'a \<Rightarrow> 'a" where
  "setattr_required f old = (case f of Supplied (Some v) \<Rightarrow> v | _ \<Rightarrow> old)"

definition nulls_required :: "'a option field \<Rightarrow> bool" where
  "nulls_required f \<longleftrightarrow> f = Supplied None"

text \<open>
  The commit of a loaded row after the assignments: the session writes the row only when
  an attribute has a new value, and only that \<^verbatim>\<open>UPDATE\<close> applies the column's
  \<^verbatim>\<open>onupdate\<close>; a row with no attribute changed stays as it was loaded.
\<close>

definition flush :: "'r \<Rightarrow> 'r \<Rightarrow> ('r \<Rightarrow> 'r) \<Rightarrow> 'r" where
  "flush loaded assigned onupdate = (if assigned = loaded then loaded else onupdate assigned)"

section \<open>Heat centers\<close>

record HeatCenterCreate =
  hcc_name :: string
  hcc_location_lat :: rat
  hcc_location_lng :: rat
  hcc_address :: "string option"
  hcc_max_capacity_mw :: rat
  hcc_current_output_mw :: "rat option"
  hcc_efficiency_percent :: "rat option"
  hcc_fuel_type :: "string option"
  hcc_is_active :: "bool option"
  hcc_commissioning_date :: "datetime option"
  hcc_last_maintenance :: "datetime option"
  hcc_description :: "string option"

record HeatCenterUpdate =
  hcu_name :: "string option field"
  hcu_location_lat :: "rat option field"
  hcu_location_lng :: "rat option field"
  hcu_address :: "string option field"
  hcu_max_capacity_mw :: "rat option field"
  hcu_current_output_mw :: "rat option field"
  hcu_efficiency_percent :: "rat option field"
  hcu_fuel_type :: "string option field"
  hcu_is_active :: "bool option field"
  hcu_commissioning_date :: "datetime option field"
  hcu_last_maintenance :: "datetime option field"
  hcu_description :: "string option field"


text \<open>
  The row that \<^verbatim>\<open>HeatCenter(**center.dict())\<close> becomes once inserted with the
  primary key \<open>new_id\<close> at the time \<open>now\<close>.
\<close>

definition HeatCenter_row :: "int \<Rightarrow> datetime \<Rightarrow> HeatCenterCreate \<Rightarrow> HeatCenter" where
  "HeatCenter_row new_id now center = \<lparr>
     hc_id = new_id,
     hc_name = hcc_name center,
     hc_location_lat = hcc_location_lat center,
     hc_location_lng = hcc_location_lng center,
     hc_address = hcc_address center,
     hc_max_capacity_mw = hcc_max_capacity_mw center,
     hc_current_output_mw = column_default 0 (hcc_current_output_mw center),
     hc_efficiency_percent = column_default 85 (hcc_efficiency_percent center),
     hc_fuel_type = hcc_fuel_type center,
     hc_is_active = column_default True (hcc_is_active center),
     hc_commissioning_date = hcc_commissioning_date center,
     hc_last_maintenance = hcc_last_maintenance center,
     hc_description = hcc_description center,
     hc_created_at = now,
     hc_updated_at = None\<rparr>"

definition create_heat_center ::
  "HeatCenterCreate \<Rightarrow> datetime \<Rightarrow> database \<Rightarrow> (error + HeatCenter) \<times> database" where
  "create_heat_center center now db =
     (let db_center = HeatCenter_row (fresh_id (map hc_id (heat_centers db))) now center
      in (Inr db_center, db\<lparr>heat_centers := heat_centers db @ [db_center]\<rparr>))"

definition get_heat_center :: "int \<Rightarrow> database \<Rightarrow> error + HeatCenter" where
  "get_heat_center center_id db =
     (case find (\<lambda>c. hc_id c = center_id) (heat_centers db) of
        None \<Rightarrow> Inl (HTTPException 404 ''Heat center not found'')
      | Some center \<Rightarrow> Inr center)"

text \<open>
  The loop \<^verbatim>\<open>for field, value in update_data.items(): setattr(center, field, value)\<close>
  assigns each supplied field. The commit writes the row when an attribute has a new
  value, and \<^verbatim>\<open>onupdate=func.now()\<close> fills \<open>updated_at\<close> in that write; with no
  attribute changed there is no write. A \<^verbatim>\<open>None\<close> for a \<^verbatim>\<open>nullable=False\<close>
  column fails the commit.
\<close>

definition heat_center_setattrs :: "HeatCenterUpdate \<Rightarrow> HeatCenter \<Rightarrow> HeatCenter" where
  "heat_center_setattrs u c = c\<lparr>
     hc_name := setattr_required (hcu_name u) (hc_name c),
     hc_location_lat := setattr_required (hcu_location_lat u) (hc_location_lat c),
     hc_location_lng := setattr_required (hcu_location_lng u) (hc_location_lng c),
     hc_address := setattr_nullable (hcu_address u) (hc_address c),
     hc_max_capacity_mw := setattr_required (hcu_max_capacity_mw u) (hc_max_capacity_mw c),
     hc_current_output_mw := setattr_nullable (hcu_current_output_mw u) (hc_current_output_mw c),
     hc_efficiency_percent := setattr_nullable (hcu_efficiency_percent u) (hc_efficiency_percent c),
     hc_fuel_type := setattr_nullable (hcu_fuel_type u) (hc_fuel_type c),
     hc_is_active := setattr_nullable (hcu_is_active u) (hc_is_active c),
     hc_commissioning_date := setattr_nullable (hcu_commissioning_date u) (hc_commissioning_date c),
     hc_last_maintenance := setattr_nullable (hcu_last_maintenance u) (hc_last_maintenance c),
     hc_description := setattr_nullable (hcu_description u) (hc_description c)\<rparr>"

definition heat_center_nulls_required :: "HeatCenterUpdate \<Rightarrow> bool" where
  "heat_center_nulls_required u \<longleftrightarrow>
     nulls_required (hcu_name u) \<or> nulls_required (hcu_location_lat u) \<or>
     nulls_required (hcu_location_lng u) \<or> nulls_required (hcu_max_capacity_mw u)"

definition update_heat_center ::
  "int \<Rightarrow> HeatCenterUpdate \<Rightarrow> datetime \<Rightarrow> database \<Rightarrow> (error + HeatCenter) \<times> database" where
  "update_heat_center center_id center_update now db =
     (case find (\<lambda>c. hc_id c = center_id) (heat_centers db) of
        None \<Rightarrow> (Inl (HTTPException 404 ''Heat center not found''), db)
      | Some center \<Rightarrow>
          if heat_center_nulls_required center_update then (Inl IntegrityError, db)
          else
            let assigned = heat_center_setattrs center_update center;
                row = flush center assigned (\<lambda>r. r\<lparr>hc_updated_at := Some now\<rparr>)
            in (Inr row,
                db\<lparr>heat_centers :=
                  map (\<lambda>c. if hc_id c = center_id then row else c) (heat_centers db)\<rparr>))"

definition delete_heat_center ::
  "int \<Rightarrow> database \<Rightarrow> (error + string) \<times> database" where
  "delete_heat_center center_id db =
     (case find (\<lambda>c. hc_id c = center_id) (heat_centers db) of
        None \<Rightarrow> (Inl (HTTPException 404 ''Heat center not found''), db)
      | Some center \<Rightarrow>
          let active_routes = length (filter (\<lambda>r. rt_heat_center_id r = center_id) (routes db))
          in if active_routes > 0
             then (Inl (HTTPException 400 ''Cannot delete heat center with active routes''), db)
             else (Inr ''Heat center deleted successfully'',
                   db\<lparr>heat_centers := filter (\<lambda>c. hc_id c \<noteq> center_id) (heat_centers db)\<rparr>))"

section \<open>Demand sites\<close>

record DemandSiteCreate =
  dsc_name :: string
  dsc_location_lat :: rat
  dsc_location_lng :: rat
  dsc_address :: "string option"
  dsc_site_type :: "string option"
  dsc_peak_demand_mw :: rat
  dsc_current_demand_mw :: "rat option"
  dsc_annual_consumption_mwh :: "rat option"
  dsc_is_connected :: "bool option"
  dsc_connection_date :: "datetime option"
  dsc_priority_level :: "int option"
  dsc_floor_area_sqm :: "rat option"
  dsc_building_age_years :: "int option"
  dsc_insulation_rating :: "string option"
  dsc_description :: "string option"

record DemandSiteUpdate =
  dsu_name :: "string option field"
  dsu_location_lat :: "rat option field"
  dsu_location_lng :: "rat option field"
  dsu_address :: "string option field"
  dsu_site_type :: "string option field"
  dsu_peak_demand_mw :: "rat option field"
  dsu_current_demand_mw :: "rat option field"
  dsu_annual_consumption_mwh :: "rat option field"
  dsu_is_connected :: "bool option field"
  dsu_connection_date :: "datetime option field"
  dsu_priority_level :: "int option field"
  dsu_floor_area_sqm :: "rat option field"
  dsu_building_age_years :: "int option field"
  dsu_insulation_rating :: "string option field"
  dsu_description :: "string option field"

definition get_demand_sites ::
  "int \<Rightarrow> int \<Rightarrow> bool \<Rightarrow> string option \<Rightarrow> database \<Rightarrow> error + DemandSite list" where
  "get_demand_sites skip limit connected_only site_type db =
     (if \<not> query_bounds_ok skip limit then Inl RequestValidationError
      else
        let q0 = demand_sites db;
            q1 = (if connected_only then filter (\<lambda>s. ds_is_connected s = Some True) q0 else q0);
            q2 = (if truthy_str site_type then filter (\<lambda>s. ds_site_type s = site_type) q1 else q1)
        in Inr (page skip limit q2))"

definition DemandSite_row :: "int \<Rightarrow> datetime \<Rightarrow> DemandSiteCreate \<Rightarrow> DemandSite" where
  "DemandSite_row new_id now site = \<lparr>
     ds_id = new_id,
     ds_name = dsc_name site,
     ds_location_lat = dsc_location_lat site,
     ds_location_lng = dsc_location_lng site,
     ds_address = dsc_address site,
     ds_site_type = dsc_site_type site,
     ds_peak_demand_mw = dsc_peak_demand_mw site,
     ds_current_demand_mw = column_default 0 (dsc_current_demand_mw site),
     ds_annual_consumption_mwh = dsc_annual_consumption_mwh site,
     ds_is_connected = column_default False (dsc_is_connected site),
     ds_connection_date = dsc_connection_date site,
     ds_priority_level = column_default 1 (dsc_priority_level site),
     ds_floor_area_sqm = dsc_floor_area_sqm site,
     ds_building_age_years = dsc_building_age_years site,
     ds_insulation_rating = dsc_insulation_rating site,
     ds_description = dsc_description site,
     ds_created_at = now,
     ds_updated_at = None\<rparr>"

definition create_demand_site ::
  "DemandSiteCreate \<Rightarrow> datetime \<Rightarrow> database \<Rightarrow> (error + DemandSite) \<times> database" where
  "create_demand_site site now db =
     (let db_site = DemandSite_row (fresh_id (map ds_id (demand_sites db))) now site
      in (Inr db_site, db\<lparr>demand_sites := demand_sites db @ [db_site]\<rparr>))"

definition get_demand_site :: "int \<Rightarrow> database \<Rightarrow> error + DemandSite" where
  "get_demand_site site_id db =
     (case find (\<lambda>s. ds_id s = site_id) (demand_sites db) of
        None \<Rightarrow> Inl (HTTPException 404 ''Demand site not found'')
      | Some site \<Rightarrow> Inr site)"

definition demand_site_setattrs :: "DemandSiteUpdate \<Rightarrow> DemandSite \<Rightarrow> DemandSite" where
  "demand_site_setattrs u s = s\<lparr>
     ds_name := setattr_required (dsu_name u) (ds_name s),
     ds_location_lat := setattr_required (dsu_location_lat u) (ds_location_lat s),
     ds_location_lng := setattr_required (dsu_location_lng u) (ds_location_lng s),
     ds_address := setattr_nullable (dsu_address u) (ds_address s),
     ds_site_type := setattr_nullable (dsu_site_type u) (ds_site_type s),
     ds_peak_demand_mw := setattr_required (dsu_peak_demand_mw u) (ds_peak_demand_mw s),
     ds_current_demand_mw := setattr_nullable (dsu_current_demand_mw u) (ds_current_demand_mw s),
     ds_annual_consumption_mwh :=
       setattr_nullable (dsu_annual_consumption_mwh u) (ds_annual_consumption_mwh s),
     ds_is_connected := setattr_nullable (dsu_is_connected u) (ds_is_connected s),
     ds_connection_date := setattr_nullable (dsu_connection_date u) (ds_connection_date s),
     ds_priority_level := setattr_nullable (dsu_priority_level u) (ds_priority_level s),
     ds_floor_area_sqm := setattr_nullable (dsu_floor_area_sqm u) (ds_floor_area_sqm s),
     ds_building_age_years := setattr_nullable (dsu_building_age_years u) (ds_building_age_years s),
     ds_insulation_rating := setattr_nullable (dsu_insulation_rating u) (ds_insulation_rating s),
     ds_description := setattr_nullable (dsu_description u) (ds_description s)\<rparr>"

definition demand_site_nulls_required :: "DemandSiteUpdate \<Rightarrow> bool" where
  "demand_site_nulls_required u \<longleftrightarrow>
     nulls_required (dsu_name u) \<or> nulls_required (dsu_location_lat u) \<or>
     nulls_required (dsu_location_lng u) \<or> nulls_required (dsu_peak_demand_mw u)"

definition update_demand_site ::
  "int \<Rightarrow> DemandSiteUpdate \<Rightarrow> datetime \<Rightarrow> database \<Rightarrow> (error + DemandSite) \<times> database" where
  "update_demand_site site_id site_update now db =
     (case find (\<lambda>s. ds_id s = site_id) (demand_sites db) of
        None \<Rightarrow> (Inl (HTTPException 404 ''Demand site not found''), db)
      | Some site \<Rightarrow>
          if demand_site_nulls_required site_update then (Inl IntegrityError, db)
          else
            let assigned = demand_site_setattrs site_update site;
                row = flush site assigned (\<lambda>r. r\<lparr>ds_updated_at := Some now\<rparr>)
            in (Inr row,
                db\<lparr>demand_sites :=
                  map (\<lambda>s. if ds_id s = site_id then row else s) (demand_sites db)\<rparr>))"

definition delete_demand_site ::
  "int \<Rightarrow> database \<Rightarrow> (error + string) \<times> database" where
  "delete_demand_site site_id db =
     (case find (\<lambda>s. ds_id s = site_id) (demand_sites db) of
        None \<Rightarrow> (Inl (HTTPException 404 ''Demand site not found''), db)
      | Some site \<Rightarrow>
          let active_routes = length (filter (\<lambda>r. rt_demand_site_id r = site_id) (routes db))
          in if active_routes > 0
             then (Inl (HTTPException 400 ''Cannot delete demand site with active routes''), db)
             else (Inr ''Demand site deleted successfully'',
                   db\<lparr>demand_sites := filter (\<lambda>s. ds_id s \<noteq> site_id) (demand_sites db)\<rparr>))"

section \<open>Routes\<close>

record RouteCreate =
  rc_heat_center_id :: int
  rc_demand_site_id :: int
  rc_distance_km :: rat
  rc_pipe_diameter_mm :: "int option"
  rc_max_flow_capacity_mw :: rat
  rc_current_flow_mw :: "rat option"
  rc_supply_temp_celsius :: "rat option"
  rc_return_temp_celsius :: "rat option"
  rc_pressure_bar :: "rat option"
  rc_heat_loss_percent :: "rat option"
  rc_installation_year :: "int option"
  rc_pipe_material :: "string option"
  rc_insulation_type :: "string option"
  rc_status :: "RouteStatus option"
  rc_is_bidirectional :: "bool option"
  rc_maintenance_due :: "datetime option"
  rc_construction_cost :: "rat option"
  rc_annual_maintenance_cost :: "rat option"

text \<open>
  A member of the enumeration \<^verbatim>\<open>RouteStatus\<close> is always true in a condition, so
  \<^verbatim>\<open>if status:\<close> asks whether the parameter is present; \<^verbatim>\<open>if heat_center_id:\<close>
  and \<^verbatim>\<open>if demand_site_id:\<close> ask for an integer other than 0.
\<close>

definition get_routes ::
  "int \<Rightarrow> int \<Rightarrow> RouteStatus option \<Rightarrow> int option \<Rightarrow> int option \<Rightarrow> database
     \<Rightarrow> error + Route list" where
  "get_routes skip limit status heat_center_id demand_site_id db =
     (if \<not> query_bounds_ok skip limit then Inl RequestValidationError
      else
        let q0 = routes db;
            q1 = (if status \<noteq> None then filter (\<lambda>r. rt_status r = status) q0 else q0);
            q2 = (if truthy_int heat_center_id
                  then filter (\<lambda>r. Some (rt_heat_center_id r) = heat_center_id) q1 else q1);
            q3 = (if truthy_int demand_site_id
                  then filter (\<lambda>r. Some (rt_demand_site_id r) = demand_site_id) q2 else q2)
        in Inr (page skip limit q3))"

definition Route_row :: "int \<Rightarrow> datetime \<Rightarrow> RouteCreate \<Rightarrow> Route" where
  "Route_row new_id now route = \<lparr>
     rt_id = new_id,
     rt_heat_center_id = rc_heat_center_id route,
     rt_demand_site_id = rc_demand_site_id route,
     rt_distance_km = rc_distance_km route,
     rt_pipe_diameter_mm = rc_pipe_diameter_mm route,
     rt_max_flow_capacity_mw = rc_max_flow_capacity_mw route,
     rt_current_flow_mw = column_default 0 (rc_current_flow_mw route),
     rt_supply_temp_celsius = column_default 80 (rc_supply_temp_celsius route),
     rt_return_temp_celsius = column_default 40 (rc_return_temp_celsius route),
     rt_pressure_bar = column_default 16 (rc_pressure_bar route),
     rt_heat_loss_percent = column_default 2 (rc_heat_loss_percent route),
     rt_installation_year = rc_installation_year route,
     rt_pipe_material = rc_pipe_material route,
     rt_insulation_type = rc_insulation_type route,
     rt_status = column_default ACTIVE (rc_status route),
     rt_is_bidirectional = column_default False (rc_is_bidirectional route),
     rt_maintenance_due = rc_maintenance_due route,
     rt_construction_cost = rc_construction_cost route,
     rt_annual_maintenance_cost = rc_annual_maintenance_cost route,
     rt_created_at = now,
     rt_updated_at = None\<rparr>"

definition create_route ::
  "RouteCreate \<Rightarrow> datetime \<Rightarrow> database \<Rightarrow> (error + Route) \<times> database" where
  "create_route route now db =
     (case find (\<lambda>c. hc_id c = rc_heat_center_id route) (heat_centers db) of
        None \<Rightarrow> (Inl (HTTPException 404 ''Heat center not found''), db)
      | Some heat_center \<Rightarrow>
     (case find (\<lambda>s. ds_id s = rc_demand_site_id route) (demand_sites db) of
        None \<Rightarrow> (Inl (HTTPException 404 ''Demand site not found''), db)
      | Some demand_site \<Rightarrow>
     (case find (\<lambda>r. rt_heat_center_id r = rc_heat_center_id route \<and>
                      rt_demand_site_id r = rc_demand_site_id route) (routes db) of
        Some existing_route \<Rightarrow>
          (Inl (HTTPException 400 ''Route already exists between these locations''), db)
      | None \<Rightarrow>
          let db_route = Route_row (fresh_id (map rt_id (routes db))) now route
          in (Inr db_route, db\<lparr>routes := routes db @ [db_route]\<rparr>))))"

definition get_route :: "int \<Rightarrow> database \<Rightarrow> error + Route" where
  "get_route route_id db =
     (case find (\<lambda>r. rt_id r = route_id) (routes db) of
        None \<Rightarrow> Inl (HTTPException 404 ''Route not found'')
      | Some route \<Rightarrow> Inr route)"

definition delete_route :: "int \<Rightarrow> database \<Rightarrow> (error + string) \<times> database" where
  "delete_route route_id db =
     (case find (\<lambda>r. rt_id r = route_id) (routes db) of
        None \<Rightarrow> (Inl (HTTPException 404 ''Route not found''), db)
      | Some route \<Rightarrow>
          (Inr ''Route deleted successfully'',
           db\<lparr>routes := filter (\<lambda>r. rt_id r \<noteq> route_id) (routes db)\<rparr>))"

section \<open>Configuration\<close>

text \<open>
  \<^verbatim>\<open>set_config\<close> looks the key up; on a hit it assigns value and type, and the
  description only under \<^verbatim>\<open>if description:\<close>; on a miss it inserts a row, whose
  \<open>is_active\<close> is the column default. The commit writes (and stamps \<open>updated_at\<close>)
  only when an attribute has a new value.
\<close>

definition SystemConfig_row ::
  "int \<Rightarrow> datetime \<Rightarrow> string \<Rightarrow> string \<Rightarrow> string \<Rightarrow> string option \<Rightarrow> SystemConfig" where
  "SystemConfig_row new_id now config_key config_value config_type description = \<lparr>
     sc_id = new_id,
     sc_config_key = config_key,
     sc_config_value = config_value,
     sc_config_type = Some config_type,
     sc_description = description,
     sc_is_active = Some True,
     sc_created_at = now,
     sc_updated_at = None\<rparr>"

definition set_config ::
  "string \<Rightarrow> string \<Rightarrow> string \<Rightarrow> string option \<Rightarrow> datetime \<Rightarrow> database
     \<Rightarrow> (error + string) \<times> database" where
  "set_config config_key config_value config_type description now db =
     (let message = ''Configuration '' @ [CHR 0x27] @ config_key @ [CHR 0x27] @
                    '' updated successfully''
      in case find (\<lambda>c. sc_config_key c = config_key) (system_config db) of
        Some config \<Rightarrow>
          let assigned = config\<lparr>
                sc_config_value := config_value,
                sc_config_type := Some config_type,
                sc_description :=
                  (if truthy_str description then description else sc_description config)\<rparr>;
              row = flush config assigned (\<lambda>r. r\<lparr>sc_updated_at := Some now\<rparr>)
          in (Inr message,
              db\<lparr>system_config :=
                map (\<lambda>c. if sc_id c = sc_id config then row else c) (system_config db)\<rparr>)
      | None \<Rightarrow>
          let config = SystemConfig_row (fresh_id (map sc_id (system_config db))) now
                         config_key config_value config_type description
          in (Inr message, db\<lparr>system_config := system_config db @ [config]\<rparr>))"

text \<open>
  \<^verbatim>\<open>get_config\<close> coerces the stored string of every active entry by its type tag.
  The parsers \<^verbatim>\<open>int\<close>, \<^verbatim>\<open>float\<close> and \<^verbatim>\<open>json.loads\<close> are Python's; they
  are parameters here, \<open>None\<close> standing for the \<^verbatim>\<open>ValueError\<close> they raise, which
  ends the whole request. \<^verbatim>\<open>config_dict\<close> is a dictionary in insertion order.
\<close>

datatype 'j config_value =
    VStr string
  | VInt int
  | VFloat rat
  | VBool bool
  | VJson 'j

definition lower_char :: "char \<Rightarrow> char" where
  "lower_char c = (let n = (of_char c :: nat) in if 65 \<le> n \<and> n \<le> 90 then char_of (n + 32) else c)"

definition lower :: "string \<Rightarrow> string" where
  "lower s = map lower_char s"

fun dict_set :: "'k \<Rightarrow> 'v \<Rightarrow> ('k \<times> 'v) list \<Rightarrow> ('k \<times> 'v) list" where
  "dict_set k v [] = [(k, v)]"
| "dict_set k v ((k', v') # d) = (if k' = k then (k, v) # d else (k', v') # dict_set k v d)"

definition coerce_config ::
  "(string \<Rightarrow> int option) \<Rightarrow> (string \<Rightarrow> rat option) \<Rightarrow> (string \<Rightarrow> 'j option)
     \<Rightarrow> SystemConfig \<Rightarrow> error + 'j config_value" where
  "coerce_config py_int py_float json_loads config =
     (let value = sc_config_value config in
      if sc_config_type config = Some ''integer'' then
        (case py_int value of None \<Rightarrow> Inl ValueError | Some n \<Rightarrow> Inr (VInt n))
      else if sc_config_type config = Some ''float'' then
        (case py_float value of None \<Rightarrow> Inl ValueError | Some x \<Rightarrow> Inr (VFloat x))
      else if sc_config_type config = Some ''boolean'' then
        Inr (VBool (lower value \<in> set [''true'', ''1'', ''yes'', ''on'']))
      else if sc_config_type config = Some ''json'' then
        (case json_loads value of None \<Rightarrow> Inl ValueError | Some j \<Rightarrow> Inr (VJson j))
      else Inr (VStr value))"

fun config_loop ::
  "(string \<Rightarrow> int option) \<Rightarrow> (string \<Rightarrow> rat option) \<Rightarrow> (string \<Rightarrow> 'j option)
     \<Rightarrow> SystemConfig list \<Rightarrow> (string \<times> 'j config_value) list
     \<Rightarrow> error + (string \<times> 'j config_value) list" where
  "config_loop py_int py_float json_loads [] config_dict = Inr config_dict"
| "config_loop py_int py_float json_loads (config # configs) config_dict =
     (case coerce_config py_int py_float json_loads config of
        Inl e \<Rightarrow> Inl e
      | Inr value \<Rightarrow>
          config_loop py_int py_float json_loads configs
            (dict_set (sc_config_key config) value config_dict))"

definition default_map_config :: "(string \<times> 'j config_value) list" where
  "default_map_config =
     [(''default_zoom'', VInt 10),
      (''center_lat'', VFloat (593293 / 10000)),
      (''center_lng'', VFloat (180686 / 10000)),
      (''heat_center_icon'', VStr ''power-plant''),
      (''demand_site_icon'', VStr ''building''),
      (''route_color'', VStr ''#ff4444''),
      (''route_width'', VInt 3),
      (''max_zoom'', VInt 18),
      (''min_zoom'', VInt 5)]"

definition get_config ::
  "(string \<Rightarrow> int option) \<Rightarrow> (string \<Rightarrow> rat option) \<Rightarrow> (string \<Rightarrow> 'j option)
     \<Rightarrow> database \<Rightarrow> error + (string \<times> 'j config_value) list" where
  "get_config py_int py_float json_loads db =
     (let configs = filter (\<lambda>c. sc_is_active c = Some True) (system_config db)
      in case config_loop py_int py_float json_loads configs [] of
           Inl e \<Rightarrow> Inl e
         | Inr config_dict \<Rightarrow>
             if config_dict = [] then Inr default_map_config else Inr config_dict)"

section \<open>Analytics\<close>

text \<open>
  \<^verbatim>\<open>func.sum(column)\<close> adds the values that are not \<^verbatim>\<open>NULL\<close> and is
  \<^verbatim>\<open>NULL\<close> when there is none; \<^verbatim>\<open>x or 0\<close> is 0 for \<^verbatim>\<open>None\<close> and for zero.
  Python's \<^verbatim>\<open>sum\<close> raises \<^verbatim>\<open>TypeError\<close> at a \<^verbatim>\<open>None\<close>, as does a
  division with a \<^verbatim>\<open>None\<close> operand, and a division by zero raises
  \<^verbatim>\<open>ZeroDivisionError\<close>. \<^verbatim>\<open>round(x, 2)\<close> rounds to the nearest multiple of
  1/100, a tie to the even one.
\<close>

definition sql_sum :: "rat option list \<Rightarrow> rat option" where
  "sql_sum vs = (case List.map_filter (\<lambda>v. v) vs of [] \<Rightarrow> None | xs \<Rightarrow> Some (sum_list xs))"

definition or_zero :: "rat option \<Rightarrow> rat" where
  "or_zero v = (case v of None \<Rightarrow> 0 | Some x \<Rightarrow> if x = 0 then 0 else x)"

fun py_sum :: "rat option list \<Rightarrow> error + rat" where
  "py_sum [] = Inr 0"
| "py_sum (None # vs) = Inl TypeError"
| "py_sum (Some v # vs) = (case py_sum vs of Inl e \<Rightarrow> Inl e | Inr s \<Rightarrow> Inr (v + s))"

definition py_div :: "rat \<Rightarrow> rat \<Rightarrow> error + rat" where
  "py_div a b = (if b = 0 then Inl ZeroDivisionError else Inr (a / b))"

definition py_div_opt :: "rat option \<Rightarrow> rat \<Rightarrow> error + rat" where
  "py_div_opt a b = (case a of None \<Rightarrow> Inl TypeError | Some x \<Rightarrow> py_div x b)"

definition round_half_even :: "rat \<Rightarrow> int" where
  "round_half_even x =
     (let n = \<lfloor>x\<rfloor>; d = x - of_int n
      in if d < 1 / 2 then n else if 1 / 2 < d then n + 1 else if even n then n else n + 1)"

definition py_round :: "rat \<Rightarrow> nat \<Rightarrow> rat" where
  "py_round x ndigits = of_int (round_half_even (x * 10 ^ ndigits)) / 10 ^ ndigits"

text \<open>The conditional expression \<^verbatim>\<open>(a / b * 100) if b > 0 else 0\<close>.\<close>

definition percent_of :: "rat \<Rightarrow> rat \<Rightarrow> error + rat" where
  "percent_of a b = (if b > 0 then ebind (py_div a b) (\<lambda>q. Inr (q * 100)) else Inr 0)"

definition percent_of_opt :: "rat option \<Rightarrow> rat \<Rightarrow> error + rat" where
  "percent_of_opt a b = (if b > 0 then ebind (py_div_opt a b) (\<lambda>q. Inr (q * 100)) else Inr 0)"

record Overview =
  ov_heat_centers_total :: nat
  ov_heat_centers_active :: nat
  ov_demand_sites_total :: nat
  ov_demand_sites_connected :: nat
  ov_routes_total :: nat
  ov_routes_active :: nat
  ov_total_generation_capacity_mw :: rat
  ov_current_generation_mw :: rat
  ov_capacity_utilization_percent :: rat
  ov_total_peak_demand_mw :: rat
  ov_current_demand_mw :: rat
  ov_demand_coverage_percent :: rat
  ov_total_pipeline_km :: rat
  ov_average_route_distance_km :: rat

definition get_analytics_overview :: "database \<Rightarrow> error + Overview" where
  "get_analytics_overview db =
     (let total_heat_centers = length (heat_centers db);
          active_heat_centers = length (filter (\<lambda>c. hc_is_active c = Some True) (heat_centers db));
          total_demand_sites = length (demand_sites db);
          connected_demand_sites =
            length (filter (\<lambda>s. ds_is_connected s = Some True) (demand_sites db));
          total_routes = length (routes db);
          active_routes = length (filter (\<lambda>r. rt_status r = Some ACTIVE) (routes db));
          total_capacity = or_zero (sql_sum (map (\<lambda>c. Some (hc_max_capacity_mw c)) (heat_centers db)));
          current_output = or_zero (sql_sum (map hc_current_output_mw (heat_centers db)));
          total_demand = or_zero (sql_sum (map (\<lambda>s. Some (ds_peak_demand_mw s)) (demand_sites db)));
          current_demand = or_zero (sql_sum (map ds_current_demand_mw (demand_sites db)));
          total_pipeline_km = or_zero (sql_sum (map (\<lambda>r. Some (rt_distance_km r)) (routes db)))
      in
        ebind (percent_of current_output total_capacity) (\<lambda>utilization.
        ebind (percent_of total_capacity total_demand) (\<lambda>coverage.
        ebind (if total_routes > 0
               then ebind (py_div total_pipeline_km (of_nat total_routes))
                      (\<lambda>q. Inr (py_round q 2))
               else Inr 0) (\<lambda>average.
        Inr \<lparr>ov_heat_centers_total = total_heat_centers,
             ov_heat_centers_active = active_heat_centers,
             ov_demand_sites_total = total_demand_sites,
             ov_demand_sites_connected = connected_demand_sites,
             ov_routes_total = total_routes,
             ov_routes_active = active_routes,
             ov_total_generation_capacity_mw = total_capacity,
             ov_current_generation_mw = current_output,
             ov_capacity_utilization_percent = py_round utilization 2,
             ov_total_peak_demand_mw = total_demand,
             ov_current_demand_mw = current_demand,
             ov_demand_coverage_percent = py_round coverage 2,
             ov_total_pipeline_km = total_pipeline_km,
             ov_average_route_distance_km = average\<rparr>))))"

fun RouteStatus_value :: "RouteStatus \<Rightarrow> string" where
  "RouteStatus_value ACTIVE = ''active''"
| "RouteStatus_value INACTIVE = ''inactive''"
| "RouteStatus_value MAINTENANCE = ''maintenance''"
| "RouteStatus_value PLANNED = ''planned''"

record RouteItem =
  ri_route_id :: int
  ri_endpoint_id :: int
  ri_distance_km :: rat
  ri_current_flow_mw :: "rat option"
  ri_max_capacity_mw :: rat
  ri_status :: string

text \<open>
  One entry of the \<^verbatim>\<open>"routes"\<close> list of a drill-down; \<open>endpoint\<close> selects the
  counterpart's identifier. \<^verbatim>\<open>route.status.value\<close> raises \<^verbatim>\<open>AttributeError\<close>
  on a \<^verbatim>\<open>None\<close> status.
\<close>

fun route_items :: "(Route \<Rightarrow> int) \<Rightarrow> Route list \<Rightarrow> error + RouteItem list" where
  "route_items endpoint [] = Inr []"
| "route_items endpoint (route # rs) =
     (case rt_status route of
        None \<Rightarrow> Inl AttributeError
      | Some st \<Rightarrow>
          (case route_items endpoint rs of
             Inl e \<Rightarrow> Inl e
           | Inr items \<Rightarrow>
               Inr (\<lparr>ri_route_id = rt_id route,
                     ri_endpoint_id = endpoint route,
                     ri_distance_km = rt_distance_km route,
                     ri_current_flow_mw = rt_current_flow_mw route,
                     ri_max_capacity_mw = rt_max_flow_capacity_mw route,
                     ri_status = RouteStatus_value st\<rparr> # items)))"

record HeatCenterAnalytics =
  hca_center :: HeatCenter
  hca_capacity_utilization_percent :: rat
  hca_connected_demand_mw :: rat
  hca_number_of_routes :: nat
  hca_routes :: "RouteItem list"

definition get_heat_center_analytics :: "int \<Rightarrow> database \<Rightarrow> error + HeatCenterAnalytics" where
  "get_heat_center_analytics center_id db =
     (case find (\<lambda>c. hc_id c = center_id) (heat_centers db) of
        None \<Rightarrow> Inl (HTTPException 404 ''Heat center not found'')
      | Some center \<Rightarrow>
          let rs = filter (\<lambda>r. rt_heat_center_id r = center_id) (routes db) in
          ebind (py_sum (map rt_current_flow_mw rs)) (\<lambda>connected_demand.
          ebind (percent_of_opt (hc_current_output_mw center) (hc_max_capacity_mw center))
            (\<lambda>utilization.
          ebind (route_items rt_demand_site_id rs) (\<lambda>items.
          Inr \<lparr>hca_center = center,
               hca_capacity_utilization_percent = py_round utilization 2,
               hca_connected_demand_mw = connected_demand,
               hca_number_of_routes = length rs,
               hca_routes = items\<rparr>))))"

record DemandSiteAnalytics =
  dsa_site :: DemandSite
  dsa_total_supply_capacity_mw :: rat
  dsa_current_supply_mw :: rat
  dsa_demand_coverage_percent :: rat
  dsa_current_utilization_percent :: rat
  dsa_routes :: "RouteItem list"

definition get_demand_site_analytics :: "int \<Rightarrow> database \<Rightarrow> error + DemandSiteAnalytics" where
  "get_demand_site_analytics site_id db =
     (case find (\<lambda>s. ds_id s = site_id) (demand_sites db) of
        None \<Rightarrow> Inl (HTTPException 404 ''Demand site not found'')
      | Some site \<Rightarrow>
          let rs = filter (\<lambda>r. rt_demand_site_id r = site_id) (routes db) in
          ebind (py_sum (map (\<lambda>r. Some (rt_max_flow_capacity_mw r)) rs))
            (\<lambda>total_supply_capacity.
          ebind (py_sum (map rt_current_flow_mw rs)) (\<lambda>current_supply.
          ebind (percent_of total_supply_capacity (ds_peak_demand_mw site)) (\<lambda>coverage.
          ebind (percent_of_opt (ds_current_demand_mw site) (ds_peak_demand_mw site))
            (\<lambda>utilization.
          ebind (route_items rt_heat_center_id rs) (\<lambda>items.
          Inr \<lparr>dsa_site = site,
               dsa_total_supply_capacity_mw = total_supply_capacity,
               dsa_current_supply_mw = current_supply,
               dsa_demand_coverage_percent = py_round coverage 2,
               dsa_current_utilization_percent = py_round utilization 2,
               dsa_routes = items\<rparr>))))))"

section \<open>Reachable stores\<close>

text \<open>
  The stores the API can produce: the empty one, and the store after any request that
  writes, whether it succeeded or raised. The handlers that only read return no
  store. There is no handler that updates a route.
\<close>

inductive reachable :: "database \<Rightarrow> bool" where
  reach_empty: "reachable empty_db"
| reach_create_heat_center:
    "reachable db \<Longrightarrow> reachable (snd (create_heat_center center now db))"
| reach_update_heat_center:
    "reachable db \<Longrightarrow> reachable (snd (update_heat_center center_id center_update now db))"
| reach_delete_heat_center:
    "reachable db \<Longrightarrow> reachable (snd (delete_heat_center center_id db))"
| reach_create_demand_site:
    "reachable db \<Longrightarrow> reachable (snd (create_demand_site site now db))"
| reach_update_demand_site:
    "reachable db \<Longrightarrow> reachable (snd (update_demand_site site_id site_update now db))"
| reach_delete_demand_site:
    "reachable db \<Longrightarrow> reachable (snd (delete_demand_site site_id db))"
| reach_create_route:
    "reachable db \<Longrightarrow> reachable (snd (create_route route now db))"
| reach_delete_route:
    "reachable db \<Longrightarrow> reachable (snd (delete_route route_id db))"
| reach_set_config:
    "reachable db \<Longrightarrow>
       reachable (snd (set_config config_key config_value config_type description now db))"

definition route_pair :: "Route \<Rightarrow> int \<times> int" where
  "route_pair r = (rt_heat_center_id r, rt_demand_site_id r)"

section \<open>Predicates of the statements\<close>


definition two_decimals :: "rat \<Rightarrow> bool" where
  "two_decimals x \<longleftrightarrow> of_int \<lfloor>x * 100\<rfloor> = x * 100"



section \<open>Example stores\<close>

text \<open>
  Concrete requests and the stores they lead to, at which the statements below are
  evaluated. \<open>no_parse\<close> is a parser that refuses every string.
\<close>

definition example_center :: HeatCenterCreate where
  "example_center = \<lparr>
     hcc_name = ''Plant'', hcc_location_lat = 37, hcc_location_lng = -122,
     hcc_address = None, hcc_max_capacity_mw = 45, hcc_current_output_mw = Some (65 / 2),
     hcc_efficiency_percent = None, hcc_fuel_type = Some ''Biomass'', hcc_is_active = None,
     hcc_commissioning_date = None, hcc_last_maintenance = None, hcc_description = None\<rparr>"

definition example_site :: DemandSiteCreate where
  "example_site = \<lparr>
     dsc_name = ''Hotel'', dsc_location_lat = 37, dsc_location_lng = -122,
     dsc_address = None, dsc_site_type = Some ''hotel'', dsc_peak_demand_mw = 8,
     dsc_current_demand_mw = Some 6, dsc_annual_consumption_mwh = None,
     dsc_is_connected = Some True, dsc_connection_date = None, dsc_priority_level = None,
     dsc_floor_area_sqm = None, dsc_building_age_years = None, dsc_insulation_rating = None,
     dsc_description = None\<rparr>"

definition example_route :: RouteCreate where
  "example_route = \<lparr>
     rc_heat_center_id = 1, rc_demand_site_id = 1, rc_distance_km = 3,
     rc_pipe_diameter_mm = None, rc_max_flow_capacity_mw = 10, rc_current_flow_mw = None,
     rc_supply_temp_celsius = None, rc_return_temp_celsius = None, rc_pressure_bar = None,
     rc_heat_loss_percent = None, rc_installation_year = None, rc_pipe_material = None,
     rc_insulation_type = None, rc_status = None, rc_is_bidirectional = None,
     rc_maintenance_due = None, rc_construction_cost = None,
     rc_annual_maintenance_cost = None\<rparr>"

definition store1 :: database where
  "store1 = snd (create_heat_center example_center 10 empty_db)"

definition store2 :: database where
  "store2 = snd (create_demand_site example_site 20 store1)"

definition store3 :: database where
  "store3 = snd (create_route example_route 30 store2)"

definition store4 :: database where
  "store4 = snd (delete_route 1 store3)"

definition config_store1 :: database where
  "config_store1 =
     snd (set_config ''route_width'' ''3'' ''integer'' (Some ''Width of a route'') 50 empty_db)"

definition config_store2 :: database where
  "config_store2 = snd (set_config ''route_width'' ''5'' ''string'' None 60 config_store1)"

definition config_store3 :: database where
  "config_store3 = snd (set_config ''layers'' ''[1, 2]'' ''structured'' None 80 config_store2)"

definition no_parse :: "string \<Rightarrow> 'a option" where
  "no_parse s = None"



definition zero_center :: HeatCenterCreate where
  "zero_center = example_center\<lparr>hcc_max_capacity_mw := 0, hcc_current_output_mw := Some 0\<rparr>"

definition zero_store :: database where
  "zero_store = snd (create_heat_center zero_center 10 empty_db)"



definition HeatCenterUpdate_unset :: HeatCenterUpdate where
  "HeatCenterUpdate_unset = \<lparr>
     hcu_name = Unset, hcu_location_lat = Unset, hcu_location_lng = Unset,
     hcu_address = Unset, hcu_max_capacity_mw = Unset, hcu_current_output_mw = Unset,
     hcu_efficiency_percent = Unset, hcu_fuel_type = Unset, hcu_is_active = Unset,
     hcu_commissioning_date = Unset, hcu_last_maintenance = Unset, hcu_description = Unset\<rparr>"

definition DemandSiteUpdate_unset :: DemandSiteUpdate where
  "DemandSiteUpdate_unset = \<lparr>
     dsu_name = Unset, dsu_location_lat = Unset, dsu_location_lng = Unset,
     dsu_address = Unset, dsu_site_type = Unset, dsu_peak_demand_mw = Unset,
     dsu_current_demand_mw = Unset, dsu_annual_consumption_mwh = Unset,
     dsu_is_connected = Unset, dsu_connection_date = Unset, dsu_priority_level = Unset,
     dsu_floor_area_sqm = Unset, dsu_building_age_years = Unset,
     dsu_insulation_rating = Unset, dsu_description = Unset\<rparr>"



definition zero_site :: DemandSiteCreate where
  "zero_site = example_site\<lparr>dsc_peak_demand_mw := 0\<rparr>"

definition zero_store2 :: database where
  "zero_store2 = snd (create_demand_site zero_site 20 zero_store)"

section \<open>Properties of the store\<close>

subsection \<open>Lookups and fresh keys\<close>

lemma fold_max_ge: "(a::int) \<le> fold max ids a"
  by (induction ids arbitrary: a) (auto intro: order_trans [OF max.cobounded2])

lemma fold_max_mem: "x \<in> set ids \<Longrightarrow> (x::int) \<le> fold max ids a"
proof (induction ids arbitrary: a)
  case Nil
  then show ?case by simp
next
  case (Cons y ys)
  show ?case
  proof (cases "x = y")
    case True
    have "y \<le> max y a" by simp
    also have "\<dots> \<le> fold max ys (max y a)" by (rule fold_max_ge)
    finally show ?thesis using True by simp
  next
    case False
    with Cons show ?thesis by simp
  qed
qed

lemma fresh_id_greater: "x \<in> set ids \<Longrightarrow> x < fresh_id ids"
  using fold_max_mem [of x ids 0] by (simp add: fresh_id_def)

lemma fresh_id_notin: "fresh_id ids \<notin> set ids"
  using fresh_id_greater [of "fresh_id ids" ids] by auto

lemma fresh_id_notin_image [simp]: "fresh_id (map f xs) \<notin> f ` set xs"
  using fresh_id_notin [of "map f xs"] by simp

lemma find_SomeD: "find P xs = Some x \<Longrightarrow> x \<in> set xs \<and> P x"
  by (induction xs) (auto split: if_splits)

lemma case_find_const:
  "(case find P xs of None \<Rightarrow> a | Some x \<Rightarrow> b) = (if \<exists>x\<in>set xs. P x then b else a)"
  by (induction xs) auto

lemma find_distinct_key:
  "distinct (map f xs) \<Longrightarrow> c \<in> set xs \<Longrightarrow> find (\<lambda>x. f x = f c) xs = Some c"
  by (induction xs) (auto simp: image_iff)

lemma find_map_replace:
  "find P xs = Some c \<Longrightarrow> P row \<Longrightarrow>
     find P (map (\<lambda>x. if g x = g c then row else x) xs) = Some row"
  by (induction xs) (auto split: if_splits)

lemma length_filter_pos: "0 < length (filter P xs) \<longleftrightarrow> (\<exists>x\<in>set xs. P x)"
  by (simp add: filter_empty_conv)

lemma distinct_map_filter_le1:
  "distinct (map f xs) \<Longrightarrow> length (filter (\<lambda>x. f x = y) xs) \<le> 1"
proof (induction xs)
  case Nil
  then show ?case by simp
next
  case (Cons x xs)
  show ?case
  proof (cases "f x = y")
    case True
    have "f z \<noteq> y" if "z \<in> set xs" for z
      using that Cons.prems True by (auto simp: image_iff)
    then have "filter (\<lambda>x. f x = y) xs = []"
      by (simp add: filter_empty_conv)
    with True show ?thesis by simp
  next
    case False
    with Cons show ?thesis by simp
  qed
qed

lemma length_filter_distinct_key:
  assumes "distinct (map f xs)" and "x \<in> set xs"
  shows "length (filter (\<lambda>y. f y = f x) xs) = 1"
proof -
  have "length (filter (\<lambda>y. f y = f x) xs) \<le> 1"
    by (rule distinct_map_filter_le1 [OF assms(1)])
  moreover from assms(2) have "filter (\<lambda>y. f y = f x) xs \<noteq> []"
    by (auto simp: filter_empty_conv)
  then have "0 < length (filter (\<lambda>y. f y = f x) xs)" by simp
  ultimately show ?thesis by linarith
qed

lemma filter_key_remove1:
  "distinct (map f xs) \<Longrightarrow> x \<in> set xs \<Longrightarrow> filter (\<lambda>y. f y \<noteq> f x) xs = remove1 x xs"
proof (induction xs)
  case Nil
  then show ?case by simp
next
  case (Cons a xs)
  show ?case
  proof (cases "a = x")
    case True
    with Cons.prems have "\<forall>y\<in>set xs. f y \<noteq> f x" by (auto simp: image_iff)
    then have "filter (\<lambda>y. f y \<noteq> f x) xs = xs" by (simp add: filter_id_conv)
    with True show ?thesis by simp
  next
    case False
    with Cons.prems have "x \<in> set xs" and "f a \<noteq> f x" by (auto simp: image_iff)
    with Cons show ?thesis using False by simp
  qed
qed

lemma distinct_map_remove1_notin:
  "distinct (map f xs) \<Longrightarrow> x \<notin> set (remove1 x xs)"
  by (simp add: distinct_map)


lemma map_replace_same_key:
  "g row = k \<Longrightarrow> map g (map (\<lambda>c. if g c = k then row else c) xs) = map g xs"
  by (induction xs) auto

lemma map_replace_by_id:
  assumes "distinct (map g xs)" and "c \<in> set xs" and "h row = h c"
  shows "map h (map (\<lambda>x. if g x = g c then row else x) xs) = map h xs"
proof -
  have "h (if g x = g c then row else x) = h x" if "x \<in> set xs" for x
  proof (cases "g x = g c")
    case True
    with assms(1,2) that have "x = c" by (auto simp: distinct_map inj_on_def)
    with True assms(3) show ?thesis by simp
  next
    case False
    then show ?thesis by simp
  qed
  then show ?thesis by simp
qed


subsection \<open>Rows\<close>

lemma hc_id_HeatCenter_row [simp]: "hc_id (HeatCenter_row i n c) = i"
  by (simp add: HeatCenter_row_def)

lemma ds_id_DemandSite_row [simp]: "ds_id (DemandSite_row i n c) = i"
  by (simp add: DemandSite_row_def)

lemma HeatCenter_row_capacity [simp]:
  "hc_max_capacity_mw (HeatCenter_row i n c) = hcc_max_capacity_mw c"
  "hc_current_output_mw (HeatCenter_row i n c) = column_default 0 (hcc_current_output_mw c)"
  "hc_is_active (HeatCenter_row i n c) = column_default True (hcc_is_active c)"
  by (simp_all add: HeatCenter_row_def)

lemma Route_row_sel [simp]:
  "rt_id (Route_row i n r) = i"
  "rt_heat_center_id (Route_row i n r) = rc_heat_center_id r"
  "rt_demand_site_id (Route_row i n r) = rc_demand_site_id r"
  "rt_current_flow_mw (Route_row i n r) = column_default 0 (rc_current_flow_mw r)"
  "rt_status (Route_row i n r) = column_default ACTIVE (rc_status r)"
  by (simp_all add: Route_row_def)

lemma route_pair_Route_row [simp]:
  "route_pair (Route_row i n r) = (rc_heat_center_id r, rc_demand_site_id r)"
  by (simp add: route_pair_def Route_row_def)

lemma hc_id_setattrs [simp]: "hc_id (heat_center_setattrs u c) = hc_id c"
  by (simp add: heat_center_setattrs_def)

lemma ds_id_setattrs [simp]: "ds_id (demand_site_setattrs u s) = ds_id s"
  by (simp add: demand_site_setattrs_def)

lemma flush_cases: "flush c a upd = a \<or> flush c a upd = upd a"
  by (auto simp add: flush_def)

lemma flush_field:
  "f (upd a) = f a \<Longrightarrow> f (flush c a upd) = f a"
  using flush_cases [of c a upd] by auto

lemma hc_id_flush [simp]:
  "hc_id (flush c (heat_center_setattrs u c) (\<lambda>r. r\<lparr>hc_updated_at := t\<rparr>)) = hc_id c"
  by (simp add: flush_field [where f = hc_id])

lemma ds_id_flush [simp]:
  "ds_id (flush s (demand_site_setattrs u s) (\<lambda>r. r\<lparr>ds_updated_at := t\<rparr>)) = ds_id s"
  by (simp add: flush_field [where f = ds_id])

lemma sc_id_flush [simp]:
  "sc_id a = sc_id c \<Longrightarrow> sc_id (flush c a (\<lambda>r. r\<lparr>sc_updated_at := t\<rparr>)) = sc_id c"
  by (simp add: flush_field [where f = sc_id])

lemma sc_config_key_flush [simp]:
  "sc_config_key a = sc_config_key c \<Longrightarrow>
     sc_config_key (flush c a (\<lambda>r. r\<lparr>sc_updated_at := t\<rparr>)) = sc_config_key c"
  by (simp add: flush_field [where f = sc_config_key])



subsection \<open>What each request does to the tables\<close>

lemma routes_create_heat_center [simp]:
  "routes (snd (create_heat_center c n db)) = routes db"
  by (simp add: create_heat_center_def Let_def)

lemma routes_update_heat_center [simp]:
  "routes (snd (update_heat_center i u n db)) = routes db"
  by (simp add: update_heat_center_def Let_def split: option.splits)

lemma routes_delete_heat_center [simp]:
  "routes (snd (delete_heat_center i db)) = routes db"
  by (simp add: delete_heat_center_def Let_def split: option.splits)

lemma routes_create_demand_site [simp]:
  "routes (snd (create_demand_site c n db)) = routes db"
  by (simp add: create_demand_site_def Let_def)

lemma routes_update_demand_site [simp]:
  "routes (snd (update_demand_site i u n db)) = routes db"
  by (simp add: update_demand_site_def Let_def split: option.splits)

lemma routes_delete_demand_site [simp]:
  "routes (snd (delete_demand_site i db)) = routes db"
  by (simp add: delete_demand_site_def Let_def split: option.splits)

lemma routes_set_config [simp]:
  "routes (snd (set_config k v t d n db)) = routes db"
  by (simp add: set_config_def Let_def split: option.splits)

lemma create_route_unfold:
  "create_route route now db =
     (if \<not> (\<exists>c\<in>set (heat_centers db). hc_id c = rc_heat_center_id route)
      then (Inl (HTTPException 404 ''Heat center not found''), db)
      else if \<not> (\<exists>s\<in>set (demand_sites db). ds_id s = rc_demand_site_id route)
      then (Inl (HTTPException 404 ''Demand site not found''), db)
      else if \<exists>r\<in>set (routes db). rt_heat_center_id r = rc_heat_center_id route \<and>
                                     rt_demand_site_id r = rc_demand_site_id route
      then (Inl (HTTPException 400 ''Route already exists between these locations''), db)
      else (Inr (Route_row (fresh_id (map rt_id (routes db))) now route),
            db\<lparr>routes := routes db @ [Route_row (fresh_id (map rt_id (routes db))) now route]\<rparr>))"
  unfolding create_route_def case_find_const Let_def by simp

lemma delete_heat_center_unfold:
  "delete_heat_center center_id db =
     (if \<not> (\<exists>c\<in>set (heat_centers db). hc_id c = center_id)
      then (Inl (HTTPException 404 ''Heat center not found''), db)
      else if \<exists>r\<in>set (routes db). rt_heat_center_id r = center_id
      then (Inl (HTTPException 400 ''Cannot delete heat center with active routes''), db)
      else (Inr ''Heat center deleted successfully'',
            db\<lparr>heat_centers := filter (\<lambda>c. hc_id c \<noteq> center_id) (heat_centers db)\<rparr>))"
  unfolding delete_heat_center_def case_find_const Let_def length_filter_pos by simp

lemma delete_demand_site_unfold:
  "delete_demand_site site_id db =
     (if \<not> (\<exists>s\<in>set (demand_sites db). ds_id s = site_id)
      then (Inl (HTTPException 404 ''Demand site not found''), db)
      else if \<exists>r\<in>set (routes db). rt_demand_site_id r = site_id
      then (Inl (HTTPException 400 ''Cannot delete demand site with active routes''), db)
      else (Inr ''Demand site deleted successfully'',
            db\<lparr>demand_sites := filter (\<lambda>s. ds_id s \<noteq> site_id) (demand_sites db)\<rparr>))"
  unfolding delete_demand_site_def case_find_const Let_def length_filter_pos by simp

lemma delete_route_unfold:
  "delete_route route_id db =
     (if \<not> (\<exists>r\<in>set (routes db). rt_id r = route_id)
      then (Inl (HTTPException 404 ''Route not found''), db)
      else (Inr ''Route deleted successfully'',
            db\<lparr>routes := filter (\<lambda>r. rt_id r \<noteq> route_id) (routes db)\<rparr>))"
  unfolding delete_route_def case_find_const by simp

lemma routes_delete_route_filter:
  "routes (snd (delete_route i db)) = filter (\<lambda>r. rt_id r \<noteq> i) (routes db)"
  by (auto simp add: delete_route_def find_None_iff filter_id_conv split: option.splits)

lemma update_heat_center_ids:
  "map hc_id (heat_centers (snd (update_heat_center i u n db))) = map hc_id (heat_centers db)"
proof (cases "find (\<lambda>c. hc_id c = i) (heat_centers db)")
  case None
  then show ?thesis by (simp add: update_heat_center_def)
next
  case (Some center)
  then have "hc_id center = i" by (auto dest: find_SomeD)
  then show ?thesis
    using Some by (simp add: update_heat_center_def Let_def map_replace_same_key)
qed

lemma update_demand_site_ids:
  "map ds_id (demand_sites (snd (update_demand_site i u n db))) = map ds_id (demand_sites db)"
proof (cases "find (\<lambda>s. ds_id s = i) (demand_sites db)")
  case None
  then show ?thesis by (simp add: update_demand_site_def)
next
  case (Some site)
  then have "ds_id site = i" by (auto dest: find_SomeD)
  then show ?thesis
    using Some by (simp add: update_demand_site_def Let_def map_replace_same_key)
qed

lemma update_heat_center_frame [simp]:
  "demand_sites (snd (update_heat_center i u n db)) = demand_sites db"
  "system_config (snd (update_heat_center i u n db)) = system_config db"
  by (simp_all add: update_heat_center_def Let_def split: option.splits)

lemma update_demand_site_frame [simp]:
  "heat_centers (snd (update_demand_site i u n db)) = heat_centers db"
  "system_config (snd (update_demand_site i u n db)) = system_config db"
  by (simp_all add: update_demand_site_def Let_def split: option.splits)

lemma create_heat_center_tables [simp]:
  "heat_centers (snd (create_heat_center c n db)) =
     heat_centers db @ [HeatCenter_row (fresh_id (map hc_id (heat_centers db))) n c]"
  "demand_sites (snd (create_heat_center c n db)) = demand_sites db"
  "system_config (snd (create_heat_center c n db)) = system_config db"
  by (simp_all add: create_heat_center_def Let_def)

lemma create_demand_site_tables [simp]:
  "demand_sites (snd (create_demand_site s n db)) =
     demand_sites db @ [DemandSite_row (fresh_id (map ds_id (demand_sites db))) n s]"
  "heat_centers (snd (create_demand_site s n db)) = heat_centers db"
  "system_config (snd (create_demand_site s n db)) = system_config db"
  by (simp_all add: create_demand_site_def Let_def)

lemma set_config_frame [simp]:
  "heat_centers (snd (set_config k v t d n db)) = heat_centers db"
  "demand_sites (snd (set_config k v t d n db)) = demand_sites db"
  by (simp_all add: set_config_def Let_def split: option.splits)

lemma set_config_ids:
  "map sc_id (system_config (snd (set_config k v t d n db))) =
     (if \<exists>c\<in>set (system_config db). sc_config_key c = k then map sc_id (system_config db)
      else map sc_id (system_config db) @ [fresh_id (map sc_id (system_config db))])"
proof (cases "find (\<lambda>c. sc_config_key c = k) (system_config db)")
  case None
  then have "\<not> (\<exists>c\<in>set (system_config db). sc_config_key c = k)"
    by (simp add: find_None_iff)
  then show ?thesis
    using None by (simp add: set_config_def Let_def SystemConfig_row_def)
next
  case (Some config)
  then have "\<exists>c\<in>set (system_config db). sc_config_key c = k" by (auto dest: find_SomeD)
  then show ?thesis
    using Some by (simp add: set_config_def Let_def map_replace_same_key)
qed

lemma set_config_hit:
  assumes "find (\<lambda>c. sc_config_key c = k) (system_config db) = Some c"
  shows "set_config k v t d now db =
     (Inr (''Configuration '' @ [CHR 0x27] @ k @ [CHR 0x27] @ '' updated successfully''),
      db\<lparr>system_config :=
        map (\<lambda>x. if sc_id x = sc_id c
                  then flush c (c\<lparr>sc_config_value := v, sc_config_type := Some t,
                                  sc_description := (if truthy_str d then d else sc_description c)\<rparr>)
                         (\<lambda>r. r\<lparr>sc_updated_at := Some now\<rparr>)
                  else x) (system_config db)\<rparr>)"
  using assms by (simp add: set_config_def Let_def)

lemma set_config_miss:
  assumes "find (\<lambda>c. sc_config_key c = k) (system_config db) = None"
  shows "set_config k v t d now db =
     (Inr (''Configuration '' @ [CHR 0x27] @ k @ [CHR 0x27] @ '' updated successfully''),
      db\<lparr>system_config := system_config db @
        [SystemConfig_row (fresh_id (map sc_id (system_config db))) now k v t d]\<rparr>)"
  using assms by (simp add: set_config_def Let_def)

lemma delete_heat_center_tables:
  "routes (snd (delete_heat_center i db)) = routes db"
  "demand_sites (snd (delete_heat_center i db)) = demand_sites db"
  "system_config (snd (delete_heat_center i db)) = system_config db"
  "heat_centers (snd (delete_heat_center i db)) = heat_centers db \<or>
     (\<forall>r\<in>set (routes db). rt_heat_center_id r \<noteq> i) \<and>
     heat_centers (snd (delete_heat_center i db)) = filter (\<lambda>c. hc_id c \<noteq> i) (heat_centers db)"
  by (simp_all add: delete_heat_center_unfold)

lemma delete_demand_site_tables:
  "routes (snd (delete_demand_site i db)) = routes db"
  "heat_centers (snd (delete_demand_site i db)) = heat_centers db"
  "system_config (snd (delete_demand_site i db)) = system_config db"
  "demand_sites (snd (delete_demand_site i db)) = demand_sites db \<or>
     (\<forall>r\<in>set (routes db). rt_demand_site_id r \<noteq> i) \<and>
     demand_sites (snd (delete_demand_site i db)) = filter (\<lambda>s. ds_id s \<noteq> i) (demand_sites db)"
  by (simp_all add: delete_demand_site_unfold)

lemma delete_route_tables:
  "routes (snd (delete_route i db)) = filter (\<lambda>r. rt_id r \<noteq> i) (routes db)"
  "heat_centers (snd (delete_route i db)) = heat_centers db"
  "demand_sites (snd (delete_route i db)) = demand_sites db"
  "system_config (snd (delete_route i db)) = system_config db"
  by (simp_all add: delete_route_unfold routes_delete_route_filter)

lemma create_route_tables:
  "heat_centers (snd (create_route route now db)) = heat_centers db"
  "demand_sites (snd (create_route route now db)) = demand_sites db"
  "system_config (snd (create_route route now db)) = system_config db"
  "routes (snd (create_route route now db)) = routes db \<or>
     (\<exists>c\<in>set (heat_centers db). hc_id c = rc_heat_center_id route) \<and>
     (\<exists>s\<in>set (demand_sites db). ds_id s = rc_demand_site_id route) \<and>
     routes (snd (create_route route now db)) =
       routes db @ [Route_row (fresh_id (map rt_id (routes db))) now route]"
  by (simp_all add: create_route_unfold)

subsection \<open>Invariants of the reachable stores\<close>

lemma reachable_routes_unique: "reachable db \<Longrightarrow> distinct (map route_pair (routes db))"
proof (induction rule: reachable.induct)
  case reach_empty
  then show ?case by (simp add: empty_db_def)
next
  case (reach_create_route db route now)
  have "(rc_heat_center_id route, rc_demand_site_id route) \<notin> route_pair ` set (routes db)"
    if "\<not> (\<exists>r\<in>set (routes db). rt_heat_center_id r = rc_heat_center_id route \<and>
                                     rt_demand_site_id r = rc_demand_site_id route)"
    using that by (auto simp: route_pair_def)
  with reach_create_route.IH show ?case
    by (simp add: create_route_unfold)
next
  case (reach_delete_route db route_id)
  then show ?case by (simp add: routes_delete_route_filter distinct_map_filter)
qed simp_all

lemma reachable_pk_unique:
  "reachable db \<Longrightarrow>
     distinct (map hc_id (heat_centers db)) \<and> distinct (map ds_id (demand_sites db)) \<and>
     distinct (map rt_id (routes db)) \<and> distinct (map sc_id (system_config db))"
proof (induction rule: reachable.induct)
  case reach_empty
  then show ?case by (simp add: empty_db_def)
next
  case (reach_create_heat_center db center now)
  then show ?case by (simp add: fresh_id_notin)
next
  case (reach_update_heat_center db center_id center_update now)
  then show ?case by (simp add: update_heat_center_ids)
next
  case (reach_delete_heat_center db center_id)
  then show ?case by (simp add: delete_heat_center_unfold distinct_map_filter)
next
  case (reach_create_demand_site db site now)
  then show ?case by (simp add: fresh_id_notin)
next
  case (reach_update_demand_site db site_id site_update now)
  then show ?case by (simp add: update_demand_site_ids)
next
  case (reach_delete_demand_site db site_id)
  then show ?case by (simp add: delete_demand_site_unfold distinct_map_filter)
next
  case (reach_create_route db route now)
  then show ?case by (simp add: create_route_unfold fresh_id_notin)
next
  case (reach_delete_route db route_id)
  then show ?case by (simp add: delete_route_unfold distinct_map_filter)
next
  case (reach_set_config db config_key config_value config_type description now)
  then show ?case by (simp add: set_config_ids fresh_id_notin)
qed


lemma reachable_routes_defaulted:
  "reachable db \<Longrightarrow>
     (\<forall>r\<in>set (routes db). rt_current_flow_mw r \<noteq> None \<and> rt_status r \<noteq> None)"
proof (induction rule: reachable.induct)
  case reach_empty
  then show ?case by (simp add: empty_db_def)
next
  case (reach_create_route db route now)
  from create_route_tables(4) [of route now db] show ?case
  proof
    assume "routes (snd (create_route route now db)) = routes db"
    with reach_create_route.IH show ?thesis by simp
  next
    assume "(\<exists>c\<in>set (heat_centers db). hc_id c = rc_heat_center_id route) \<and>
     (\<exists>s\<in>set (demand_sites db). ds_id s = rc_demand_site_id route) \<and>
     routes (snd (create_route route now db)) =
       routes db @ [Route_row (fresh_id (map rt_id (routes db))) now route]"
    with reach_create_route.IH show ?thesis
      by (simp add: column_default_def split: option.splits)
  qed
next
  case (reach_delete_route db route_id)
  then show ?case by (simp add: delete_route_tables)
qed simp_all

lemma reachable_config_keys: "reachable db \<Longrightarrow> distinct (map sc_config_key (system_config db))"
proof (induction rule: reachable.induct)
  case reach_empty
  then show ?case by (simp add: empty_db_def)
next
  case (reach_set_config db k v t d now)
  show ?case
  proof (cases "find (\<lambda>c. sc_config_key c = k) (system_config db)")
    case None
    then have "k \<notin> sc_config_key ` set (system_config db)"
      by (auto simp: find_None_iff)
    with reach_set_config.IH show ?thesis
      by (simp add: set_config_miss [OF None] SystemConfig_row_def)
  next
    case (Some c)
    from reachable_pk_unique [OF reach_set_config.hyps]
    have d: "distinct (map sc_id (system_config db))" by simp
    from Some have c: "c \<in> set (system_config db)" by (auto dest: find_SomeD)
    let ?row = "flush c (c\<lparr>sc_config_value := v, sc_config_type := Some t,
                           sc_description := (if truthy_str d then d else sc_description c)\<rparr>)
                  (\<lambda>r. r\<lparr>sc_updated_at := Some now\<rparr>)"
    have key: "sc_config_key ?row = sc_config_key c" by simp
    have tab: "system_config (snd (set_config k v t d now db)) =
                 map (\<lambda>x. if sc_id x = sc_id c then ?row else x) (system_config db)"
      unfolding set_config_hit [OF Some] by simp
    have "map sc_config_key (system_config (snd (set_config k v t d now db))) =
            map sc_config_key (system_config db)"
      unfolding tab by (rule map_replace_by_id [OF d c key])
    with reach_set_config.IH show ?thesis by simp
  qed
qed (simp_all add: delete_heat_center_tables delete_demand_site_tables delete_route_tables
       create_route_tables)

subsection \<open>The configuration read\<close>

lemma map_of_dict_set: "map_of (dict_set k v d) = (map_of d)(k \<mapsto> v)"
  by (induction d) (auto simp: fun_eq_iff)

lemma config_loop_other:
  "config_loop p_int p_float p_json configs acc = Inr res \<Longrightarrow> k \<notin> sc_config_key ` set configs \<Longrightarrow>
     map_of res k = map_of acc k"
proof (induction configs arbitrary: acc)
  case Nil
  then show ?case by simp
next
  case (Cons c configs)
  from Cons.prems(1) obtain v where v: "coerce_config p_int p_float p_json c = Inr v"
    and rest: "config_loop p_int p_float p_json configs (dict_set (sc_config_key c) v acc) = Inr res"
    by (auto split: sum.splits)
  from Cons.prems(2) have "k \<noteq> sc_config_key c" and "k \<notin> sc_config_key ` set configs" by auto
  with Cons.IH [OF rest] show ?case by (simp add: map_of_dict_set)
qed

lemma config_loop_entry:
  "config_loop p_int p_float p_json configs acc = Inr res \<Longrightarrow> distinct (map sc_config_key configs) \<Longrightarrow>
     c \<in> set configs \<Longrightarrow>
     \<exists>v. coerce_config p_int p_float p_json c = Inr v \<and> map_of res (sc_config_key c) = Some v"
proof (induction configs arbitrary: acc)
  case Nil
  then show ?case by simp
next
  case (Cons x configs)
  from Cons.prems(1) obtain v where v: "coerce_config p_int p_float p_json x = Inr v"
    and rest: "config_loop p_int p_float p_json configs (dict_set (sc_config_key x) v acc) = Inr res"
    by (auto split: sum.splits)
  show ?case
  proof (cases "c = x")
    case True
    from Cons.prems(2) have "sc_config_key x \<notin> sc_config_key ` set configs" by simp
    from config_loop_other [OF rest this] have "map_of res (sc_config_key x) = Some v"
      by (simp add: map_of_dict_set)
    with v True show ?thesis by simp
  next
    case False
    with Cons.prems have "c \<in> set configs" and "distinct (map sc_config_key configs)" by simp_all
    with Cons.IH [OF rest] show ?thesis by simp
  qed
qed

lemma coerce_config_other:
  "sc_config_type c \<notin> {Some ''integer'', Some ''float'', Some ''boolean'', Some ''json''} \<Longrightarrow>
     coerce_config p_int p_float p_json c = Inr (VStr (sc_config_value c))"
  by (simp add: coerce_config_def Let_def)

subsection \<open>The analytics\<close>

lemma round_half_even_int [simp]: "round_half_even (of_int k) = k"
  by (simp add: round_half_even_def)

lemma round_half_even_numeral [simp]:
  "round_half_even (numeral n) = numeral n"
  "round_half_even (- numeral n) = - numeral n"
  using round_half_even_int [of "numeral n"] round_half_even_int [of "- numeral n"]
  by simp_all

lemma py_round_zero [simp]: "py_round 0 n = 0"
  by (simp add: py_round_def round_half_even_def)

lemma py_round_two_decimals: "two_decimals (py_round x 2)"
  by (simp add: two_decimals_def py_round_def)

lemma two_decimals_zero [simp]: "two_decimals 0"
  by (simp add: two_decimals_def)

lemma sum_list_map_filter_option:
  "sum_list (List.map_filter (\<lambda>v. v) vs) =
     sum_list (map (\<lambda>v. case v of None \<Rightarrow> 0 | Some x \<Rightarrow> x) vs)"
  by (induction vs) (auto simp: List.map_filter_simps split: option.splits)

lemma or_zero_sql_sum:
  "or_zero (sql_sum vs) = sum_list (map (\<lambda>v. case v of None \<Rightarrow> (0::rat) | Some x \<Rightarrow> x) vs)"
proof -
  have "or_zero (sql_sum vs) = sum_list (List.map_filter (\<lambda>v. v) vs)"
    by (cases "List.map_filter (\<lambda>v. v) vs") (simp_all add: or_zero_def sql_sum_def)
  then show ?thesis by (simp add: sum_list_map_filter_option)
qed

lemma or_zero_sql_sum_Some:
  "or_zero (sql_sum (map (\<lambda>x. Some (f x)) xs)) = sum_list (map f xs)"
  by (simp add: or_zero_sql_sum comp_def)

lemma percent_of_eq: "percent_of a b = Inr (if 0 < b then a / b * 100 else 0)"
  by (simp add: percent_of_def py_div_def ebind_def)

lemma percent_of_opt_eq:
  "percent_of_opt a b =
     (if 0 < b then (case a of None \<Rightarrow> Inl TypeError | Some x \<Rightarrow> Inr (x / b * 100)) else Inr 0)"
  by (simp add: percent_of_opt_def py_div_opt_def py_div_def ebind_def split: option.splits)

lemma get_analytics_overview_eq:
  "get_analytics_overview db =
     Inr \<lparr>ov_heat_centers_total = length (heat_centers db),
          ov_heat_centers_active =
            length (filter (\<lambda>c. hc_is_active c = Some True) (heat_centers db)),
          ov_demand_sites_total = length (demand_sites db),
          ov_demand_sites_connected =
            length (filter (\<lambda>s. ds_is_connected s = Some True) (demand_sites db)),
          ov_routes_total = length (routes db),
          ov_routes_active = length (filter (\<lambda>r. rt_status r = Some ACTIVE) (routes db)),
          ov_total_generation_capacity_mw = sum_list (map hc_max_capacity_mw (heat_centers db)),
          ov_current_generation_mw =
            sum_list (map (\<lambda>c. case hc_current_output_mw c of None \<Rightarrow> 0 | Some x \<Rightarrow> x)
              (heat_centers db)),
          ov_capacity_utilization_percent =
            py_round
              (if 0 < sum_list (map hc_max_capacity_mw (heat_centers db))
               then sum_list (map (\<lambda>c. case hc_current_output_mw c of None \<Rightarrow> 0 | Some x \<Rightarrow> x)
                      (heat_centers db)) /
                    sum_list (map hc_max_capacity_mw (heat_centers db)) * 100
               else 0) 2,
          ov_total_peak_demand_mw = sum_list (map ds_peak_demand_mw (demand_sites db)),
          ov_current_demand_mw =
            sum_list (map (\<lambda>s. case ds_current_demand_mw s of None \<Rightarrow> 0 | Some x \<Rightarrow> x)
              (demand_sites db)),
          ov_demand_coverage_percent =
            py_round
              (if 0 < sum_list (map ds_peak_demand_mw (demand_sites db))
               then sum_list (map hc_max_capacity_mw (heat_centers db)) /
                    sum_list (map ds_peak_demand_mw (demand_sites db)) * 100
               else 0) 2,
          ov_total_pipeline_km = sum_list (map rt_distance_km (routes db)),
          ov_average_route_distance_km =
            (if routes db = [] then 0
             else py_round (sum_list (map rt_distance_km (routes db)) /
                            of_nat (length (routes db))) 2)\<rparr>"
  by (simp add: get_analytics_overview_def Let_def percent_of_eq ebind_def or_zero_sql_sum
      or_zero_sql_sum_Some py_div_def comp_def)

lemma py_sum_error: "py_sum vs = Inl e \<Longrightarrow> e = TypeError"
  by (induction vs rule: py_sum.induct) (auto split: sum.splits)

lemma py_sum_total: "\<forall>v\<in>set vs. v \<noteq> None \<Longrightarrow> \<exists>s. py_sum vs = Inr s"
  by (induction vs rule: py_sum.induct) auto

lemma route_items_error: "route_items f rs = Inl e \<Longrightarrow> e = AttributeError"
  by (induction rs) (auto split: option.splits sum.splits)

lemma route_items_total: "\<forall>r\<in>set rs. rt_status r \<noteq> None \<Longrightarrow> \<exists>items. route_items f rs = Inr items"
  by (induction rs) auto

lemma percent_of_opt_error: "percent_of_opt a b = Inl e \<Longrightarrow> e = TypeError"
  by (auto simp: percent_of_opt_eq split: if_splits option.splits)

lemma ebind_Inl: "ebind m f = Inl e \<longleftrightarrow> m = Inl e \<or> (\<exists>x. m = Inr x \<and> f x = Inl e)"
  by (cases m) (simp_all add: ebind_def)

lemma ebind_Inr: "ebind m f = Inr y \<longleftrightarrow> (\<exists>x. m = Inr x \<and> f x = Inr y)"
  by (cases m) (simp_all add: ebind_def)

lemma heat_center_analytics_error:
  "get_heat_center_analytics i db = Inl e \<Longrightarrow>
     e = HTTPException 404 ''Heat center not found'' \<or> e = TypeError \<or> e = AttributeError"
  by (auto simp: get_heat_center_analytics_def Let_def ebind_Inl
      dest: py_sum_error percent_of_opt_error route_items_error split: option.splits)

lemma demand_site_analytics_error:
  "get_demand_site_analytics i db = Inl e \<Longrightarrow>
     e = HTTPException 404 ''Demand site not found'' \<or> e = TypeError \<or> e = AttributeError"
  by (auto simp: get_demand_site_analytics_def Let_def ebind_Inl percent_of_eq
      dest: py_sum_error percent_of_opt_error route_items_error split: option.splits)

lemma heat_center_analytics_rounded:
  "get_heat_center_analytics i db = Inr r \<Longrightarrow> two_decimals (hca_capacity_utilization_percent r)"
  by (auto simp: get_heat_center_analytics_def Let_def ebind_Inr py_round_two_decimals
      split: option.splits)

lemma demand_site_analytics_rounded:
  "get_demand_site_analytics i db = Inr r \<Longrightarrow>
     two_decimals (dsa_demand_coverage_percent r) \<and>
     two_decimals (dsa_current_utilization_percent r)"
  by (auto simp: get_demand_site_analytics_def Let_def ebind_Inr py_round_two_decimals
      split: option.splits)

lemma heat_center_analytics_zero_capacity:
  assumes "reachable db" and "c \<in> set (heat_centers db)" and "hc_max_capacity_mw c = 0"
  shows "\<exists>r. get_heat_center_analytics (hc_id c) db = Inr r \<and>
             hca_capacity_utilization_percent r = 0"
proof -
  let ?rs = "filter (\<lambda>r. rt_heat_center_id r = hc_id c) (routes db)"
  from reachable_pk_unique [OF assms(1)] assms(2)
  have f: "find (\<lambda>x. hc_id x = hc_id c) (heat_centers db) = Some c"
    by (simp add: find_distinct_key)
  from reachable_routes_defaulted [OF assms(1)]
  have "\<forall>v\<in>set (map rt_current_flow_mw ?rs). v \<noteq> None" and "\<forall>r\<in>set ?rs. rt_status r \<noteq> None"
    by auto
  then obtain s items where s: "py_sum (map rt_current_flow_mw ?rs) = Inr s"
    and items: "route_items rt_demand_site_id ?rs = Inr items"
    using py_sum_total route_items_total by blast
  show ?thesis
    using f s items assms(3)
    by (simp add: get_heat_center_analytics_def Let_def ebind_def percent_of_opt_eq)
qed

lemma demand_site_analytics_zero_peak:
  assumes "reachable db" and "s \<in> set (demand_sites db)" and "ds_peak_demand_mw s = 0"
  shows "\<exists>r. get_demand_site_analytics (ds_id s) db = Inr r \<and>
             dsa_demand_coverage_percent r = 0 \<and> dsa_current_utilization_percent r = 0"
proof -
  let ?rs = "filter (\<lambda>r. rt_demand_site_id r = ds_id s) (routes db)"
  from reachable_pk_unique [OF assms(1)] assms(2)
  have f: "find (\<lambda>x. ds_id x = ds_id s) (demand_sites db) = Some s"
    by (simp add: find_distinct_key)
  from reachable_routes_defaulted [OF assms(1)]
  have "\<forall>v\<in>set (map rt_current_flow_mw ?rs). v \<noteq> None" and "\<forall>r\<in>set ?rs. rt_status r \<noteq> None"
    by auto
  moreover have "\<forall>v\<in>set (map (\<lambda>r. Some (rt_max_flow_capacity_mw r)) ?rs). v \<noteq> None"
    by auto
  ultimately obtain t c items
    where t: "py_sum (map (\<lambda>r. Some (rt_max_flow_capacity_mw r)) ?rs) = Inr t"
      and c: "py_sum (map rt_current_flow_mw ?rs) = Inr c"
      and items: "route_items rt_heat_center_id ?rs = Inr items"
    using py_sum_total route_items_total by meson
  show ?thesis
    using f t c items assms(3)
    by (simp add: get_demand_site_analytics_def Let_def ebind_def percent_of_opt_eq percent_of_eq)
qed

subsection \<open>The example stores\<close>

lemma store1_eq:
  "store1 = \<lparr>heat_centers = [HeatCenter_row 1 10 example_center], demand_sites = [],
             routes = [], system_config = []\<rparr>"
  by (simp add: store1_def create_heat_center_def empty_db_def fresh_id_def Let_def)

lemma store2_eq:
  "store2 = \<lparr>heat_centers = [HeatCenter_row 1 10 example_center],
             demand_sites = [DemandSite_row 1 20 example_site],
             routes = [], system_config = []\<rparr>"
  by (simp add: store2_def store1_eq create_demand_site_def fresh_id_def Let_def)

lemma store3_eq:
  "store3 = \<lparr>heat_centers = [HeatCenter_row 1 10 example_center],
             demand_sites = [DemandSite_row 1 20 example_site],
             routes = [Route_row 1 30 example_route], system_config = []\<rparr>"
  by (simp add: store3_def store2_eq create_route_unfold fresh_id_def example_route_def)

lemma store3_reachable: "reachable store3"
  unfolding store3_def store2_def store1_def
  by (intro reachable.intros)

lemma store4_eq:
  "store4 = \<lparr>heat_centers = [HeatCenter_row 1 10 example_center],
             demand_sites = [DemandSite_row 1 20 example_site],
             routes = [], system_config = []\<rparr>"
  by (simp add: store4_def store3_eq delete_route_unfold)

lemma store4_reachable: "reachable store4"
  unfolding store4_def by (intro reachable.intros store3_reachable)

lemma config_store1_eq:
  "config_store1 = \<lparr>heat_centers = [], demand_sites = [], routes = [],
     system_config =
       [SystemConfig_row 1 50 ''route_width'' ''3'' ''integer'' (Some ''Width of a route'')]\<rparr>"
  by (simp add: config_store1_def set_config_def empty_db_def fresh_id_def Let_def)

lemma config_store1_reachable: "reachable config_store1"
  unfolding config_store1_def by (intro reachable.intros)

lemma config_store2_eq:
  "config_store2 = \<lparr>heat_centers = [], demand_sites = [], routes = [],
     system_config =
       [\<lparr>sc_id = 1, sc_config_key = ''route_width'', sc_config_value = ''5'',
         sc_config_type = Some ''string'', sc_description = Some ''Width of a route'',
         sc_is_active = Some True, sc_created_at = 50, sc_updated_at = Some 60\<rparr>]\<rparr>"
  by (simp add: config_store2_def config_store1_eq set_config_def Let_def SystemConfig_row_def
      truthy_str_def flush_def)

lemma config_store3_eq:
  "config_store3 = \<lparr>heat_centers = [], demand_sites = [], routes = [],
     system_config =
       [\<lparr>sc_id = 1, sc_config_key = ''route_width'', sc_config_value = ''5'',
         sc_config_type = Some ''string'', sc_description = Some ''Width of a route'',
         sc_is_active = Some True, sc_created_at = 50, sc_updated_at = Some 60\<rparr>,
        \<lparr>sc_id = 2, sc_config_key = ''layers'', sc_config_value = ''[1, 2]'',
         sc_config_type = Some ''structured'', sc_description = None,
         sc_is_active = Some True, sc_created_at = 80, sc_updated_at = None\<rparr>]\<rparr>"
  by (simp add: config_store3_def config_store2_eq set_config_def Let_def SystemConfig_row_def
      fresh_id_def)


lemma zero_store_eq:
  "zero_store = \<lparr>heat_centers = [HeatCenter_row 1 10 zero_center], demand_sites = [],
     routes = [], system_config = []\<rparr>"
  by (simp add: zero_store_def create_heat_center_def empty_db_def fresh_id_def Let_def)

lemma zero_store_reachable: "reachable zero_store"
  unfolding zero_store_def by (intro reachable.intros)

lemma zero_store2_eq:
  "zero_store2 = \<lparr>heat_centers = [HeatCenter_row 1 10 zero_center],
     demand_sites = [DemandSite_row 1 20 zero_site], routes = [], system_config = []\<rparr>"
  by (simp add: zero_store2_def zero_store_eq create_demand_site_def fresh_id_def Let_def)

lemma zero_store2_reachable: "reachable zero_store2"
  unfolding zero_store2_def by (intro reachable.intros zero_store_reachable)



lemma heat_center_setattrs_unset [simp]: "heat_center_setattrs HeatCenterUpdate_unset c = c"
  by (simp add: heat_center_setattrs_def HeatCenterUpdate_unset_def setattr_nullable_def
      setattr_required_def)

lemma demand_site_setattrs_unset [simp]: "demand_site_setattrs DemandSiteUpdate_unset s = s"
  by (simp add: demand_site_setattrs_def DemandSiteUpdate_unset_def setattr_nullable_def
      setattr_required_def)

section \<open>Statements about the specification\<close>

subsection \<open>Route uniqueness\<close>

text \<open>
  C1. In every store reachable from the empty one by the requests of the API, the pairs
  (heat center id, demand site id) of the routes are pairwise different: at most one
  route connects a given supply point and demand point. \<^verbatim>\<open>create_route\<close> refuses
  a pair that is present, \<^verbatim>\<open>delete_route\<close> only removes rows, and no handler
  updates a route.
\<close>

theorem route_pairs_unique:
  assumes "reachable db"
  shows "distinct (map route_pair (routes db)) \<and>
         length (filter (\<lambda>r. route_pair r = (heat_center_id, demand_site_id)) (routes db)) \<le> 1"
proof -
  have d: "distinct (map route_pair (routes db))"
    by (rule reachable_routes_unique [OF assms])
  show ?thesis
    using d distinct_map_filter_le1 [OF d, of "(heat_center_id, demand_site_id)"] by simp
qed

theorem route_pairs_unique_witness:
  "reachable store3 \<and> routes store3 = [Route_row 1 30 example_route] \<and>
   distinct (map route_pair (routes store3)) \<and>
   length (filter (\<lambda>r. route_pair r = (1, 1)) (routes store3)) \<le> 1 \<and>
   snd (create_route example_route 40 store3) = store3"
  using route_pairs_unique [OF store3_reachable, of 1 1] store3_reachable
  by (simp add: store3_eq create_route_unfold example_route_def)

subsection \<open>Refusals of route creation\<close>



subsection \<open>Guarded deletion\<close>

text \<open>
  C3. In a reachable store, deleting a heat center (a demand site) by the id of a live
  record fails with 400 and leaves the whole store as it was when a route refers to that
  id, and otherwise succeeds with a store that differs only in that table having lost
  exactly that record. Deleting a route by the id of a live route always succeeds and
  removes exactly that route.
\<close>

theorem delete_guarded:
  assumes "reachable db"
  shows "(c \<in> set (heat_centers db) \<longrightarrow>
            delete_heat_center (hc_id c) db =
              (if \<exists>r\<in>set (routes db). rt_heat_center_id r = hc_id c
               then (Inl (HTTPException 400 ''Cannot delete heat center with active routes''), db)
               else (Inr ''Heat center deleted successfully'',
                     db\<lparr>heat_centers := remove1 c (heat_centers db)\<rparr>)) \<and>
            c \<notin> set (remove1 c (heat_centers db))) \<and>
         (s \<in> set (demand_sites db) \<longrightarrow>
            delete_demand_site (ds_id s) db =
              (if \<exists>r\<in>set (routes db). rt_demand_site_id r = ds_id s
               then (Inl (HTTPException 400 ''Cannot delete demand site with active routes''), db)
               else (Inr ''Demand site deleted successfully'',
                     db\<lparr>demand_sites := remove1 s (demand_sites db)\<rparr>)) \<and>
            s \<notin> set (remove1 s (demand_sites db))) \<and>
         (x \<in> set (routes db) \<longrightarrow>
            delete_route (rt_id x) db =
              (Inr ''Route deleted successfully'', db\<lparr>routes := remove1 x (routes db)\<rparr>) \<and>
            x \<notin> set (remove1 x (routes db)))"
proof -
  from reachable_pk_unique [OF assms]
  have h: "distinct (map hc_id (heat_centers db))"
    and d: "distinct (map ds_id (demand_sites db))"
    and r: "distinct (map rt_id (routes db))" by simp_all
  show ?thesis
  proof (intro conjI impI)
    assume c: "c \<in> set (heat_centers db)"
    then have "\<exists>x\<in>set (heat_centers db). hc_id x = hc_id c" by blast
    then show "delete_heat_center (hc_id c) db =
              (if \<exists>r\<in>set (routes db). rt_heat_center_id r = hc_id c
               then (Inl (HTTPException 400 ''Cannot delete heat center with active routes''), db)
               else (Inr ''Heat center deleted successfully'',
                     db\<lparr>heat_centers := remove1 c (heat_centers db)\<rparr>))"
      by (simp add: delete_heat_center_unfold filter_key_remove1 [OF h c])
    show "c \<notin> set (remove1 c (heat_centers db))"
      by (rule distinct_map_remove1_notin [OF h])
  next
    assume s: "s \<in> set (demand_sites db)"
    then have "\<exists>x\<in>set (demand_sites db). ds_id x = ds_id s" by blast
    then show "delete_demand_site (ds_id s) db =
              (if \<exists>r\<in>set (routes db). rt_demand_site_id r = ds_id s
               then (Inl (HTTPException 400 ''Cannot delete demand site with active routes''), db)
               else (Inr ''Demand site deleted successfully'',
                     db\<lparr>demand_sites := remove1 s (demand_sites db)\<rparr>))"
      by (simp add: delete_demand_site_unfold filter_key_remove1 [OF d s])
    show "s \<notin> set (remove1 s (demand_sites db))"
      by (rule distinct_map_remove1_notin [OF d])
  next
    assume x: "x \<in> set (routes db)"
    then have "\<exists>y\<in>set (routes db). rt_id y = rt_id x" by blast
    then show "delete_route (rt_id x) db =
              (Inr ''Route deleted successfully'', db\<lparr>routes := remove1 x (routes db)\<rparr>)"
      by (simp add: delete_route_unfold filter_key_remove1 [OF r x])
    show "x \<notin> set (remove1 x (routes db))"
      by (rule distinct_map_remove1_notin [OF r])
  qed
qed

theorem delete_guarded_witness:
  "reachable store3 \<and> reachable store4 \<and>
   delete_heat_center 1 store3 =
     (Inl (HTTPException 400 ''Cannot delete heat center with active routes''), store3) \<and>
   delete_demand_site 1 store3 =
     (Inl (HTTPException 400 ''Cannot delete demand site with active routes''), store3) \<and>
   delete_route 1 store3 = (Inr ''Route deleted successfully'', store4) \<and>
   delete_heat_center 1 store4 =
     (Inr ''Heat center deleted successfully'', store4\<lparr>heat_centers := []\<rparr>) \<and>
   delete_demand_site 1 store4 =
     (Inr ''Demand site deleted successfully'', store4\<lparr>demand_sites := []\<rparr>)"
  using delete_guarded [OF store3_reachable, of "HeatCenter_row 1 10 example_center"
      "DemandSite_row 1 20 example_site" "Route_row 1 30 example_route"]
    delete_guarded [OF store4_reachable, of "HeatCenter_row 1 10 example_center"
      "DemandSite_row 1 20 example_site" "Route_row 1 30 example_route"]
    store3_reachable store4_reachable
  by (simp add: store3_eq store4_eq example_route_def)

subsection \<open>Bounds of a list request\<close>




subsection \<open>Filters with a false value\<close>

text \<open>
  C9. In the route list a \<^verbatim>\<open>heat_center_id\<close> or \<^verbatim>\<open>demand_site_id\<close> of 0, and in
  the demand site list an empty \<^verbatim>\<open>site_type\<close>, give the result of the same request
  without that parameter: no filter is applied, and with no other filter the result is
  the plain page of the table.
\<close>

theorem falsy_filters_ignored:
  "get_routes skip limit status (Some 0) demand_site_id db =
     get_routes skip limit status None demand_site_id db \<and>
   get_routes skip limit status heat_center_id (Some 0) db =
     get_routes skip limit status heat_center_id None db \<and>
   get_demand_sites skip limit connected_only (Some '''') db =
     get_demand_sites skip limit connected_only None db \<and>
   get_routes skip limit None (Some 0) (Some 0) db =
     (if query_bounds_ok skip limit then Inr (page skip limit (routes db))
      else Inl RequestValidationError) \<and>
   get_demand_sites skip limit False (Some '''') db =
     (if query_bounds_ok skip limit then Inr (page skip limit (demand_sites db))
      else Inl RequestValidationError)"
  by (simp add: get_routes_def get_demand_sites_def truthy_int_def truthy_str_def Let_def)

theorem falsy_filters_ignored_witness:
  "get_routes 0 100 None (Some 0) None store3 = Inr [Route_row 1 30 example_route] \<and>
   get_routes 0 100 None None (Some 0) store3 = Inr [Route_row 1 30 example_route] \<and>
   get_routes 0 100 None (Some 2) None store3 = Inr [] \<and>
   get_demand_sites 0 100 False (Some '''') store3 = Inr [DemandSite_row 1 20 example_site]"
  using falsy_filters_ignored [of 0 100 None None store3 None False]
  by (simp add: store3_eq get_routes_def get_demand_sites_def query_bounds_ok_def page_def
      truthy_int_def truthy_str_def example_route_def)

subsection \<open>Writing a configuration entry\<close>

text \<open>
  C8 as stated fails on the description: a write of an existing key with no description
  (or an empty one) replaces value and type and keeps the stored description.
\<close>

theorem description_kept_counterexample:
  "map sc_description (system_config config_store1) = [Some ''Width of a route''] \<and>
   set_config ''route_width'' ''5'' ''string'' None 60 config_store1 =
     (Inr ''Configuration 'route_width' updated successfully'', config_store2) \<and>
   map sc_config_value (system_config config_store2) = [''5''] \<and>
   map sc_description (system_config config_store2) = [Some ''Width of a route''] \<and>
   map sc_description (system_config config_store2) \<noteq> [None] \<and>
   map sc_description
     (system_config (snd (set_config ''route_width'' ''5'' ''string'' (Some []) 60 config_store1)))
     = [Some ''Width of a route'']"
  by (simp add: config_store1_eq config_store2_eq set_config_def Let_def SystemConfig_row_def
      truthy_str_def flush_def)

text \<open>
  C8, as the code has it. A write to an existing key replaces the entry's value and type
  tag with the arguments, replaces its description only when a non-empty description is
  supplied (\<^verbatim>\<open>if description:\<close>) and keeps it otherwise; \<open>is_active\<close>, the
  identifier and \<open>created_at\<close> stay, and the table keeps its length. A write to a
  new key appends an entry with the arguments and \<open>is_active\<close> true. The write always
  succeeds, touches no other table, and in a reachable store leaves exactly one entry
  under the key: no earlier value is kept.
\<close>

theorem set_config_upsert:
  "(find (\<lambda>c. sc_config_key c = k) (system_config db) = Some c \<longrightarrow>
      (\<exists>c'. find (\<lambda>c. sc_config_key c = k)
                (system_config (snd (set_config k v t d now db))) = Some c' \<and>
            sc_config_key c' = k \<and> sc_config_value c' = v \<and> sc_config_type c' = Some t \<and>
            sc_description c' = (if truthy_str d then d else sc_description c) \<and>
            sc_is_active c' = sc_is_active c \<and> sc_id c' = sc_id c \<and>
            sc_created_at c' = sc_created_at c) \<and>
      length (system_config (snd (set_config k v t d now db))) = length (system_config db)) \<and>
   (find (\<lambda>c. sc_config_key c = k) (system_config db) = None \<longrightarrow>
      system_config (snd (set_config k v t d now db)) =
        system_config db @
          [\<lparr>sc_id = fresh_id (map sc_id (system_config db)), sc_config_key = k,
            sc_config_value = v, sc_config_type = Some t, sc_description = d,
            sc_is_active = Some True, sc_created_at = now, sc_updated_at = None\<rparr>]) \<and>
   (reachable db \<longrightarrow>
      length (filter (\<lambda>c. sc_config_key c = k)
                (system_config (snd (set_config k v t d now db)))) = 1) \<and>
   (\<exists>message. fst (set_config k v t d now db) = Inr message) \<and>
   heat_centers (snd (set_config k v t d now db)) = heat_centers db \<and>
   demand_sites (snd (set_config k v t d now db)) = demand_sites db \<and>
   routes (snd (set_config k v t d now db)) = routes db"
proof (intro conjI impI)
  let ?db' = "snd (set_config k v t d now db)"
  let ?a = "c\<lparr>sc_config_value := v, sc_config_type := Some t,
               sc_description := (if truthy_str d then d else sc_description c)\<rparr>"
  let ?row = "flush c ?a (\<lambda>r. r\<lparr>sc_updated_at := Some now\<rparr>)"
  {
    assume hit: "find (\<lambda>c. sc_config_key c = k) (system_config db) = Some c"
    then have k: "sc_config_key c = k" by (auto dest: find_SomeD)
    have tab: "system_config ?db' = map (\<lambda>x. if sc_id x = sc_id c then ?row else x) (system_config db)"
      unfolding set_config_hit [OF hit] by simp
    have key: "sc_config_key ?row = k" using k by simp
    have "find (\<lambda>c. sc_config_key c = k) (system_config ?db') = Some ?row"
      unfolding tab using hit key by (rule find_map_replace)
    moreover have "sc_config_value ?row = v" by (simp add: flush_field [where f = sc_config_value])
    moreover have "sc_config_type ?row = Some t" by (simp add: flush_field [where f = sc_config_type])
    moreover have "sc_description ?row = (if truthy_str d then d else sc_description c)"
      by (simp add: flush_field [where f = sc_description])
    moreover have "sc_is_active ?row = sc_is_active c" by (simp add: flush_field [where f = sc_is_active])
    moreover have "sc_id ?row = sc_id c" by simp
    moreover have "sc_created_at ?row = sc_created_at c"
      by (simp add: flush_field [where f = sc_created_at])
    ultimately show "\<exists>c'. find (\<lambda>c. sc_config_key c = k) (system_config ?db') = Some c' \<and>
            sc_config_key c' = k \<and> sc_config_value c' = v \<and> sc_config_type c' = Some t \<and>
            sc_description c' = (if truthy_str d then d else sc_description c) \<and>
            sc_is_active c' = sc_is_active c \<and> sc_id c' = sc_id c \<and>
            sc_created_at c' = sc_created_at c"
      using key by blast
    show "length (system_config ?db') = length (system_config db)"
      unfolding tab by simp
  }
  {
    assume miss: "find (\<lambda>c. sc_config_key c = k) (system_config db) = None"
    show "system_config ?db' =
        system_config db @
          [\<lparr>sc_id = fresh_id (map sc_id (system_config db)), sc_config_key = k,
            sc_config_value = v, sc_config_type = Some t, sc_description = d,
            sc_is_active = Some True, sc_created_at = now, sc_updated_at = None\<rparr>]"
      unfolding set_config_miss [OF miss] by (simp add: SystemConfig_row_def)
  }
  {
    assume reach: "reachable db"
    have "reachable ?db'" by (rule reach_set_config [OF reach])
    then have dist: "distinct (map sc_config_key (system_config ?db'))"
      by (rule reachable_config_keys)
    have "\<exists>x\<in>set (system_config ?db'). sc_config_key x = k"
    proof (cases "find (\<lambda>c. sc_config_key c = k) (system_config db)")
      case None
      then show ?thesis
        unfolding set_config_miss [OF None] by (simp add: SystemConfig_row_def)
    next
      case (Some e)
      then have e: "e \<in> set (system_config db)" "sc_config_key e = k"
        by (auto dest: find_SomeD)
      let ?r = "flush e (e\<lparr>sc_config_value := v, sc_config_type := Some t,
                 sc_description := (if truthy_str d then d else sc_description e)\<rparr>)
               (\<lambda>r. r\<lparr>sc_updated_at := Some now\<rparr>)"
      have key: "sc_config_key ?r = k" using e(2) by simp
      have "find (\<lambda>c. sc_config_key c = k)
              (map (\<lambda>x. if sc_id x = sc_id e then ?r else x) (system_config db)) = Some ?r"
        using Some key by (rule find_map_replace)
      then have "?r \<in> set (map (\<lambda>x. if sc_id x = sc_id e then ?r else x) (system_config db))"
        by (rule find_SomeD [THEN conjunct1])
      then have "?r \<in> set (system_config ?db')"
        unfolding set_config_hit [OF Some] by simp
      with key show ?thesis by blast
    qed
    then obtain x where x: "x \<in> set (system_config ?db')" "sc_config_key x = k" by blast
    from length_filter_distinct_key [OF dist x(1)] x(2)
    show "length (filter (\<lambda>c. sc_config_key c = k) (system_config ?db')) = 1" by simp
  }
  show "\<exists>message. fst (set_config k v t d now db) = Inr message"
    by (simp add: set_config_def Let_def split: option.splits)
qed simp_all

theorem set_config_upsert_witness:
  "reachable config_store1 \<and>
   system_config config_store2 =
     [\<lparr>sc_id = 1, sc_config_key = ''route_width'', sc_config_value = ''5'',
       sc_config_type = Some ''string'', sc_description = Some ''Width of a route'',
       sc_is_active = Some True, sc_created_at = 50, sc_updated_at = Some 60\<rparr>] \<and>
   length (filter (\<lambda>c. sc_config_key c = ''route_width'') (system_config config_store2)) = 1 \<and>
   system_config (snd (set_config ''max_zoom'' ''18'' ''integer'' None 70 config_store1)) =
     system_config config_store1 @
       [\<lparr>sc_id = 2, sc_config_key = ''max_zoom'', sc_config_value = ''18'',
         sc_config_type = Some ''integer'', sc_description = None,
         sc_is_active = Some True, sc_created_at = 70, sc_updated_at = None\<rparr>]"
  using set_config_upsert [of "''route_width''" config_store1
      "SystemConfig_row 1 50 ''route_width'' ''3'' ''integer'' (Some ''Width of a route'')"
      "''5''" "''string''" None 60]
    set_config_upsert [of "''max_zoom''" config_store1
      "SystemConfig_row 1 50 ''route_width'' ''3'' ''integer'' (Some ''Width of a route'')"
      "''18''" "''integer''" None 70]
    config_store1_reachable
  by (simp add: config_store2_eq config_store1_eq config_store2_def [symmetric]
      SystemConfig_row_def fresh_id_def)

subsection \<open>Reading a configuration entry of another type\<close>

text \<open>
  C10. Whatever the parsers are, an entry whose type tag is none of \<^verbatim>\<open>integer\<close>,
  \<^verbatim>\<open>float\<close>, \<^verbatim>\<open>boolean\<close>, \<^verbatim>\<open>json\<close> is coerced to its stored string; so is
  an entry tagged \<^verbatim>\<open>structured\<close>, which no parser sees. When the read succeeds on a
  table with unique keys, the mapping it returns has, under the key of every such active
  entry, that stored string.
\<close>

theorem unknown_type_verbatim:
  "(sc_config_type c \<notin> {Some ''integer'', Some ''float'', Some ''boolean'', Some ''json''} \<longrightarrow>
      coerce_config py_int py_float json_loads c = Inr (VStr (sc_config_value c))) \<and>
   (sc_config_type c = Some ''structured'' \<longrightarrow>
      coerce_config py_int py_float json_loads c = Inr (VStr (sc_config_value c))) \<and>
   (get_config py_int py_float json_loads db = Inr result \<and>
    distinct (map sc_config_key (system_config db)) \<and>
    c \<in> set (system_config db) \<and> sc_is_active c = Some True \<and>
    sc_config_type c \<notin> {Some ''integer'', Some ''float'', Some ''boolean'', Some ''json''} \<longrightarrow>
      map_of result (sc_config_key c) = Some (VStr (sc_config_value c)))"
proof (intro conjI impI)
  assume a: "get_config py_int py_float json_loads db = Inr result \<and>
    distinct (map sc_config_key (system_config db)) \<and>
    c \<in> set (system_config db) \<and> sc_is_active c = Some True \<and>
    sc_config_type c \<notin> {Some ''integer'', Some ''float'', Some ''boolean'', Some ''json''}"
  let ?configs = "filter (\<lambda>c. sc_is_active c = Some True) (system_config db)"
  from a obtain config_dict where
    loop: "config_loop py_int py_float json_loads ?configs [] = Inr config_dict"
    and res: "result = (if config_dict = [] then default_map_config else config_dict)"
    by (auto simp: get_config_def Let_def split: sum.splits if_splits)
  from a have d: "distinct (map sc_config_key ?configs)" by (simp add: distinct_map_filter)
  from a have c: "c \<in> set ?configs" by simp
  from config_loop_entry [OF loop d c] coerce_config_other [of c py_int py_float json_loads] a
  have m: "map_of config_dict (sc_config_key c) = Some (VStr (sc_config_value c))" by auto
  then have "config_dict \<noteq> []" by auto
  with res m show "map_of result (sc_config_key c) = Some (VStr (sc_config_value c))" by simp
qed (simp_all add: coerce_config_def Let_def)

theorem unknown_type_verbatim_witness:
  "get_config no_parse no_parse (no_parse :: string \<Rightarrow> unit option) config_store3 =
     Inr [(''route_width'', VStr ''5''), (''layers'', VStr ''[1, 2]'')] \<and>
   map_of [(''route_width'', VStr ''5''), (''layers'', VStr ''[1, 2]'' :: unit config_value)]
     ''layers'' = Some (VStr ''[1, 2]'')"
  using unknown_type_verbatim [of
    "\<lparr>sc_id = 2, sc_config_key = ''layers'', sc_config_value = ''[1, 2]'',
         sc_config_type = Some ''structured'', sc_description = None,
         sc_is_active = Some True, sc_created_at = 80, sc_updated_at = None\<rparr>"
    no_parse no_parse "no_parse :: string \<Rightarrow> unit option" config_store3
    "[(''route_width'', VStr ''5''), (''layers'', VStr ''[1, 2]'')]"]
  by (simp add: config_store3_eq get_config_def coerce_config_def Let_def)

subsection \<open>Capacity utilization of the overview\<close>




subsection \<open>Rounding and division in the analytics\<close>

text \<open>
  C6. None of the three analytics views raises \<^verbatim>\<open>ZeroDivisionError\<close>: every division
  stands under a guard that its divisor is positive. The overview always returns. Every
  percentage a view returns (and the average route distance) is a multiple of 1/100. On
  a store with no heat center, demand site or route the overview gives 0 for capacity
  utilization, demand coverage and average route distance, and so it does for each of
  the three whenever its divisor (capacity sum, peak demand sum, number of routes) is 0.
  In a reachable store the analytics of a heat center with \<open>max_capacity = 0\<close>
  return, with a capacity utilization of 0, and the analytics of a demand site with
  \<open>peak_demand = 0\<close> return, with a coverage and a utilization of 0.
\<close>

theorem analytics_never_divide_by_zero:
  "get_analytics_overview db \<noteq> Inl ZeroDivisionError \<and>
   get_heat_center_analytics center_id db \<noteq> Inl ZeroDivisionError \<and>
   get_demand_site_analytics site_id db \<noteq> Inl ZeroDivisionError \<and>
   (\<exists>r. get_analytics_overview db = Inr r \<and>
        two_decimals (ov_capacity_utilization_percent r) \<and>
        two_decimals (ov_demand_coverage_percent r) \<and>
        two_decimals (ov_average_route_distance_km r) \<and>
        (sum_list (map hc_max_capacity_mw (heat_centers db)) = 0 \<longrightarrow>
           ov_capacity_utilization_percent r = 0) \<and>
        (sum_list (map ds_peak_demand_mw (demand_sites db)) = 0 \<longrightarrow>
           ov_demand_coverage_percent r = 0) \<and>
        (routes db = [] \<longrightarrow> ov_average_route_distance_km r = 0)) \<and>
   (\<forall>r. get_heat_center_analytics center_id db = Inr r \<longrightarrow>
        two_decimals (hca_capacity_utilization_percent r)) \<and>
   (\<forall>r. get_demand_site_analytics site_id db = Inr r \<longrightarrow>
        two_decimals (dsa_demand_coverage_percent r) \<and>
        two_decimals (dsa_current_utilization_percent r)) \<and>
   (heat_centers db = [] \<and> demand_sites db = [] \<and> routes db = [] \<longrightarrow>
      (\<exists>r. get_analytics_overview db = Inr r \<and>
           ov_capacity_utilization_percent r = 0 \<and> ov_demand_coverage_percent r = 0 \<and>
           ov_average_route_distance_km r = 0)) \<and>
   (reachable db \<and> c \<in> set (heat_centers db) \<and> hc_max_capacity_mw c = 0 \<longrightarrow>
      (\<exists>r. get_heat_center_analytics (hc_id c) db = Inr r \<and>
           hca_capacity_utilization_percent r = 0)) \<and>
   (reachable db \<and> s \<in> set (demand_sites db) \<and> ds_peak_demand_mw s = 0 \<longrightarrow>
      (\<exists>r. get_demand_site_analytics (ds_id s) db = Inr r \<and>
           dsa_demand_coverage_percent r = 0 \<and> dsa_current_utilization_percent r = 0))"
proof (intro conjI impI allI)
  show "get_heat_center_analytics center_id db \<noteq> Inl ZeroDivisionError"
    using heat_center_analytics_error [of center_id db ZeroDivisionError] by auto
  show "get_demand_site_analytics site_id db \<noteq> Inl ZeroDivisionError"
    using demand_site_analytics_error [of site_id db ZeroDivisionError] by auto
  show "\<exists>r. get_analytics_overview db = Inr r \<and>
        two_decimals (ov_capacity_utilization_percent r) \<and>
        two_decimals (ov_demand_coverage_percent r) \<and>
        two_decimals (ov_average_route_distance_km r) \<and>
        (sum_list (map hc_max_capacity_mw (heat_centers db)) = 0 \<longrightarrow>
           ov_capacity_utilization_percent r = 0) \<and>
        (sum_list (map ds_peak_demand_mw (demand_sites db)) = 0 \<longrightarrow>
           ov_demand_coverage_percent r = 0) \<and>
        (routes db = [] \<longrightarrow> ov_average_route_distance_km r = 0)"
    by (simp add: get_analytics_overview_eq py_round_two_decimals)
next
  fix r assume "get_heat_center_analytics center_id db = Inr r"
  then show "two_decimals (hca_capacity_utilization_percent r)"
    by (rule heat_center_analytics_rounded)
next
  fix r assume r: "get_demand_site_analytics site_id db = Inr r"
  from demand_site_analytics_rounded [OF r]
  show "two_decimals (dsa_demand_coverage_percent r)"
    and "two_decimals (dsa_current_utilization_percent r)" by simp_all
next
  assume "heat_centers db = [] \<and> demand_sites db = [] \<and> routes db = []"
  then show "\<exists>r. get_analytics_overview db = Inr r \<and>
           ov_capacity_utilization_percent r = 0 \<and> ov_demand_coverage_percent r = 0 \<and>
           ov_average_route_distance_km r = 0"
    by (simp add: get_analytics_overview_eq)
next
  assume "reachable db \<and> c \<in> set (heat_centers db) \<and> hc_max_capacity_mw c = 0"
  then show "\<exists>r. get_heat_center_analytics (hc_id c) db = Inr r \<and>
           hca_capacity_utilization_percent r = 0"
    using heat_center_analytics_zero_capacity by blast
next
  assume "reachable db \<and> s \<in> set (demand_sites db) \<and> ds_peak_demand_mw s = 0"
  then show "\<exists>r. get_demand_site_analytics (ds_id s) db = Inr r \<and>
           dsa_demand_coverage_percent r = 0 \<and> dsa_current_utilization_percent r = 0"
    using demand_site_analytics_zero_peak by blast
qed (simp add: get_analytics_overview_eq)

theorem analytics_never_divide_by_zero_witness:
  "reachable zero_store2 \<and>
   (case get_analytics_overview empty_db of
      Inl e \<Rightarrow> None
    | Inr r \<Rightarrow> Some (ov_capacity_utilization_percent r, ov_demand_coverage_percent r,
                    ov_average_route_distance_km r)) = Some (0, 0, 0) \<and>
   (case get_analytics_overview zero_store2 of
      Inl e \<Rightarrow> None
    | Inr r \<Rightarrow> Some (ov_capacity_utilization_percent r, ov_demand_coverage_percent r,
                    ov_average_route_distance_km r)) = Some (0, 0, 0) \<and>
   (case get_heat_center_analytics 1 zero_store2 of
      Inl e \<Rightarrow> None | Inr r \<Rightarrow> Some (hca_capacity_utilization_percent r)) = Some 0 \<and>
   (case get_demand_site_analytics 1 zero_store2 of
      Inl e \<Rightarrow> None
    | Inr r \<Rightarrow> Some (dsa_demand_coverage_percent r, dsa_current_utilization_percent r)) =
     Some (0, 0) \<and>
   get_demand_site_analytics 2 zero_store2 = Inl (HTTPException 404 ''Demand site not found'')"
proof -
  have e: "heat_centers empty_db = [] \<and> demand_sites empty_db = [] \<and> routes empty_db = []"
    by (simp add: empty_db_def)
  have "HeatCenter_row 1 10 zero_center \<in> set (heat_centers zero_store2) \<and>
        hc_max_capacity_mw (HeatCenter_row 1 10 zero_center) = 0 \<and>
        DemandSite_row 1 20 zero_site \<in> set (demand_sites zero_store2) \<and>
        ds_peak_demand_mw (DemandSite_row 1 20 zero_site) = 0"
    by (simp add: zero_store2_eq zero_center_def zero_site_def DemandSite_row_def)
  with zero_store2_reachable
  have z: "reachable zero_store2 \<and> HeatCenter_row 1 10 zero_center \<in> set (heat_centers zero_store2) \<and>
           hc_max_capacity_mw (HeatCenter_row 1 10 zero_center) = 0"
    and y: "reachable zero_store2 \<and> DemandSite_row 1 20 zero_site \<in> set (demand_sites zero_store2) \<and>
           ds_peak_demand_mw (DemandSite_row 1 20 zero_site) = 0"
    by blast+
  have sums: "sum_list (map hc_max_capacity_mw (heat_centers zero_store2)) = 0"
    "sum_list (map ds_peak_demand_mw (demand_sites zero_store2)) = 0" "routes zero_store2 = []"
    by (simp_all add: zero_store2_eq zero_center_def zero_site_def DemandSite_row_def)
  from analytics_never_divide_by_zero [of empty_db 1 1] e
  have "\<exists>r. get_analytics_overview empty_db = Inr r \<and>
           ov_capacity_utilization_percent r = 0 \<and> ov_demand_coverage_percent r = 0 \<and>
           ov_average_route_distance_km r = 0" by blast
  moreover
  from analytics_never_divide_by_zero
    [of zero_store2 1 1 "HeatCenter_row 1 10 zero_center" "DemandSite_row 1 20 zero_site"] z y sums
  have "\<exists>r. get_heat_center_analytics 1 zero_store2 = Inr r \<and>
           hca_capacity_utilization_percent r = 0"
    and "\<exists>r. get_demand_site_analytics 1 zero_store2 = Inr r \<and>
           dsa_demand_coverage_percent r = 0 \<and> dsa_current_utilization_percent r = 0"
    and "\<exists>r. get_analytics_overview zero_store2 = Inr r \<and>
           ov_capacity_utilization_percent r = 0 \<and> ov_demand_coverage_percent r = 0 \<and>
           ov_average_route_distance_km r = 0"
    by auto
  moreover have "get_demand_site_analytics 2 zero_store2 =
                   Inl (HTTPException 404 ''Demand site not found'')"
    by (simp add: get_demand_site_analytics_def zero_store2_eq)
  ultimately show ?thesis using zero_store2_reachable by auto
qed

subsection \<open>Partial update\<close>




end
